theory Spec2Isabelle
  imports Complex_Main "HOL-Library.Word"
begin

unbundle bit_operations_syntax

section \<open>Manual control module: numeric types\<close>

text \<open>
  The module works on three kinds of numbers.
  \<^item> \<open>int16_t\<close> and \<open>uint16_t\<close> pulse widths are \<open>16 word\<close>; \<open>sint\<close> reads a
    signed parameter and \<open>uint\<close> an unsigned one. C promotes both to the 32-bit \<open>int\<close>
    before it compares or subtracts them, so sums and differences of two 16-bit values
    are computed on \<open>int\<close> and cannot wrap.
  \<^item> tick counts (\<open>portTickType\<close>) are \<open>32 word\<close> and wrap.
  \<^item> C \<open>float\<close> values are modelled by exact rationals. The model is exact wherever
    the program only converts 16-bit integers, negates, compares, multiplies by a power
    of two or stores the constants 0, 1 and -1; a quotient is rounded by the hardware,
    and rounding to nearest is monotone and keeps 0, 1 and -1 fixed, so the comparisons
    of a rounded quotient with 1 or -1 come out as they do on the exact quotient.
\<close>

type_synonym float = rat

definition CONNECTION_OFFSET :: int where
  "CONNECTION_OFFSET = 250"

definition ARMED_THRESHOLD :: float where
  "ARMED_THRESHOLD = 1 / 2"

definition RCVR_ACTIVITY_MONITOR_CHANNELS_PER_GROUP :: nat where
  "RCVR_ACTIVITY_MONITOR_CHANNELS_PER_GROUP = 12"

definition RCVR_ACTIVITY_MONITOR_MIN_RANGE :: nat where
  "RCVR_ACTIVITY_MONITOR_MIN_RANGE = 10"

section \<open>Pure helpers\<close>

text \<open>
  \<open>validInputRange(int16_t min, int16_t max, uint16_t value)\<close>: the bounds are swapped
  when they come in the wrong order, then the value is compared on \<open>int\<close>.
\<close>

definition validInputRange :: "16 word \<Rightarrow> 16 word \<Rightarrow> 16 word \<Rightarrow> bool" where
  "validInputRange mn mx val =
     (let (mn', mx') = (if sint mn > sint mx then (mx, mn) else (mn, mx))
      in uint val \<ge> sint mn' - CONNECTION_OFFSET \<and> uint val \<le> sint mx' + CONNECTION_OFFSET)"

text \<open>
  \<open>scaleChannel(int16_t value, int16_t max, int16_t min, int16_t neutral)\<close>: two-sided
  scaling around neutral, each division guarded, the result bounded to [-1, 1].
\<close>

definition scaleChannel :: "16 word \<Rightarrow> 16 word \<Rightarrow> 16 word \<Rightarrow> 16 word \<Rightarrow> float" where
  "scaleChannel val mx mn neutral =
     (let valueScaled =
        (if (sint mx > sint mn \<and> sint val \<ge> sint neutral)
            \<or> (sint mn > sint mx \<and> sint val \<le> sint neutral)
         then (if mx \<noteq> neutral
               then of_int (sint val - sint neutral) / of_int (sint mx - sint neutral)
               else 0)
         else (if mn \<noteq> neutral
               then of_int (sint val - sint neutral) / of_int (sint neutral - sint mn)
               else 0))
      in if valueScaled > 1 then 1
         else if valueScaled < - 1 then - 1
         else valueScaled)"

text \<open>
  The conversion \<open>(int16_t)x\<close> of a float truncates towards zero. It is defined in C only
  when the truncated value fits 16 bits, which holds for every \<open>x * 256\<close> with \<open>x\<close> in
  [-1, 1].
\<close>

definition float_to_int16 :: "float \<Rightarrow> int" where
  "float_to_int16 x = (if x \<ge> 0 then \<lfloor>x\<rfloor> else \<lceil>x\<rceil>)"

text \<open>
  The switch position of \<open>processFlightMode\<close>:
  \<open>uint8_t pos = ((int16_t)(flightMode * 256.0f) + 256) * settings->FlightModeNumber >> 9\<close>,
  then \<open>if (pos >= FlightModeNumber) pos = FlightModeNumber - 1\<close>. The product is an
  \<open>int\<close>, the shift is arithmetic and the assignment keeps the low 8 bits.
\<close>

definition flightModeSwitchPos :: "8 word \<Rightarrow> float \<Rightarrow> 8 word" where
  "flightModeSwitchPos FlightModeNumber flightMode =
     (let pos = (word_of_int
                  (drop_bit 9 ((float_to_int16 (flightMode * 256) + 256) * uint FlightModeNumber))
                 :: 8 word)
      in if pos \<ge> FlightModeNumber then FlightModeNumber - 1 else pos)"

text \<open>
  The quantisation as the specification words it:
  \<open>bucket = clamp(((int(value*256) + 256) * N) >> 9, 0, N-1)\<close>, on unbounded integers.
\<close>

definition decode_spec :: "int \<Rightarrow> float \<Rightarrow> int" where
  "decode_spec N v = max 0 (min (N - 1) (((float_to_int16 (v * 256) + 256) * N) div 2 ^ 9))"

section \<open>Data model\<close>

datatype ArmState_t =
    ARM_STATE_DISARMED
  | ARM_STATE_ARMING_MANUAL
  | ARM_STATE_ARMED
  | ARM_STATE_DISARMING_MANUAL
  | ARM_STATE_DISARMING_TIMEOUT

text \<open>
  The generated UAVObject headers (\<open>flightstatus.h\<close>, \<open>manualcontrolsettings.h\<close>,
  \<open>manualcontrolcommand.h\<close>, \<open>systemalarms.h\<close>, \<open>receiveractivity.h\<close>) are not among
  the sources. Their enumerations and structures are declared here with the names the
  module uses. The per-channel sub-structures (\<open>ChannelGroups\<close>, \<open>ChannelMin\<close>, ...),
  which the module also reads as arrays through \<open>cast_struct_to_array\<close>, and the
  \<open>Channel\<close> array of the command are functions of the channel index.
\<close>

datatype FlightStatusArmedOptions =
    FLIGHTSTATUS_ARMED_DISARMED
  | FLIGHTSTATUS_ARMED_ARMING
  | FLIGHTSTATUS_ARMED_ARMED

datatype FlightStatusFlightModeOptions =
    FLIGHTSTATUS_FLIGHTMODE_MANUAL
  | FLIGHTSTATUS_FLIGHTMODE_STABILIZED1
  | FLIGHTSTATUS_FLIGHTMODE_STABILIZED2
  | FLIGHTSTATUS_FLIGHTMODE_STABILIZED3
  | FLIGHTSTATUS_FLIGHTMODE_ALTITUDEHOLD
  | FLIGHTSTATUS_FLIGHTMODE_ALTITUDEVARIO
  | FLIGHTSTATUS_FLIGHTMODE_POSITIONHOLD
  | FLIGHTSTATUS_FLIGHTMODE_POI
  | FLIGHTSTATUS_FLIGHTMODE_RETURNTOBASE
  | FLIGHTSTATUS_FLIGHTMODE_PATHPLANNER
  | FLIGHTSTATUS_FLIGHTMODE_LAND
  | FLIGHTSTATUS_FLIGHTMODE_other nat

datatype FlightModeCategory =
    FLIGHTMODE_UNDEFINED
  | FLIGHTMODE_MANUAL
  | FLIGHTMODE_STABILIZED
  | FLIGHTMODE_GUIDANCE
  | FLIGHTMODE_TUNING

datatype ManualControlSettingsArmingOptions =
    MANUALCONTROLSETTINGS_ARMING_ALWAYSDISARMED
  | MANUALCONTROLSETTINGS_ARMING_ALWAYSARMED
  | MANUALCONTROLSETTINGS_ARMING_ROLLLEFT
  | MANUALCONTROLSETTINGS_ARMING_ROLLRIGHT
  | MANUALCONTROLSETTINGS_ARMING_PITCHFORWARD
  | MANUALCONTROLSETTINGS_ARMING_PITCHAFT
  | MANUALCONTROLSETTINGS_ARMING_YAWLEFT
  | MANUALCONTROLSETTINGS_ARMING_YAWRIGHT
  | MANUALCONTROLSETTINGS_ARMING_ACCESSORY0
  | MANUALCONTROLSETTINGS_ARMING_ACCESSORY1
  | MANUALCONTROLSETTINGS_ARMING_ACCESSORY2

datatype SystemAlarmsAlarmOptions =
    SYSTEMALARMS_ALARM_UNINITIALISED
  | SYSTEMALARMS_ALARM_OK
  | SYSTEMALARMS_ALARM_WARNING
  | SYSTEMALARMS_ALARM_ERROR
  | SYSTEMALARMS_ALARM_CRITICAL

text \<open>The severities are compared as numbers (\<open>>= SYSTEMALARMS_ALARM_ERROR\<close>).\<close>

fun severity_rank :: "SystemAlarmsAlarmOptions \<Rightarrow> nat" where
  "severity_rank SYSTEMALARMS_ALARM_UNINITIALISED = 0"
| "severity_rank SYSTEMALARMS_ALARM_OK = 1"
| "severity_rank SYSTEMALARMS_ALARM_WARNING = 2"
| "severity_rank SYSTEMALARMS_ALARM_ERROR = 3"
| "severity_rank SYSTEMALARMS_ALARM_CRITICAL = 4"

text \<open>
  Modelled from the spec: the elements of the \<open>SystemAlarms.Alarm\<close> structure are
  declared in \<open>systemalarms.h\<close>, which is missing. The module names the manual-control,
  guidance, GPS, telemetry and actuator alarms; the specification adds flight-time and
  battery; every other element is \<open>SYSTEMALARMS_ALARM_other\<close>.
\<close>

datatype SystemAlarmsAlarmElem =
    SYSTEMALARMS_ALARM_ACTUATOR
  | SYSTEMALARMS_ALARM_MANUALCONTROL
  | SYSTEMALARMS_ALARM_GUIDANCE
  | SYSTEMALARMS_ALARM_GPS
  | SYSTEMALARMS_ALARM_TELEMETRY
  | SYSTEMALARMS_ALARM_FLIGHTTIME
  | SYSTEMALARMS_ALARM_BATTERY
  | SYSTEMALARMS_ALARM_other

definition SYSTEMALARMS_ALARM_ELEMS :: "SystemAlarmsAlarmElem list" where
  "SYSTEMALARMS_ALARM_ELEMS =
     [SYSTEMALARMS_ALARM_ACTUATOR, SYSTEMALARMS_ALARM_MANUALCONTROL, SYSTEMALARMS_ALARM_GUIDANCE,
      SYSTEMALARMS_ALARM_GPS, SYSTEMALARMS_ALARM_TELEMETRY, SYSTEMALARMS_ALARM_FLIGHTTIME,
      SYSTEMALARMS_ALARM_BATTERY, SYSTEMALARMS_ALARM_other]"

type_synonym SystemAlarmsData = "SystemAlarmsAlarmElem \<Rightarrow> SystemAlarmsAlarmOptions"

datatype ChannelElem =
    MANUALCONTROLSETTINGS_CHANNELGROUPS_ROLL
  | MANUALCONTROLSETTINGS_CHANNELGROUPS_PITCH
  | MANUALCONTROLSETTINGS_CHANNELGROUPS_YAW
  | MANUALCONTROLSETTINGS_CHANNELGROUPS_THROTTLE
  | MANUALCONTROLSETTINGS_CHANNELGROUPS_FLIGHTMODE
  | MANUALCONTROLSETTINGS_CHANNELGROUPS_COLLECTIVE
  | MANUALCONTROLSETTINGS_CHANNELGROUPS_ACCESSORY0
  | MANUALCONTROLSETTINGS_CHANNELGROUPS_ACCESSORY1
  | MANUALCONTROLSETTINGS_CHANNELGROUPS_ACCESSORY2

definition MANUALCONTROLSETTINGS_CHANNELGROUPS_ELEMS :: "ChannelElem list" where
  "MANUALCONTROLSETTINGS_CHANNELGROUPS_ELEMS =
     [MANUALCONTROLSETTINGS_CHANNELGROUPS_ROLL, MANUALCONTROLSETTINGS_CHANNELGROUPS_PITCH,
      MANUALCONTROLSETTINGS_CHANNELGROUPS_YAW, MANUALCONTROLSETTINGS_CHANNELGROUPS_THROTTLE,
      MANUALCONTROLSETTINGS_CHANNELGROUPS_FLIGHTMODE, MANUALCONTROLSETTINGS_CHANNELGROUPS_COLLECTIVE,
      MANUALCONTROLSETTINGS_CHANNELGROUPS_ACCESSORY0, MANUALCONTROLSETTINGS_CHANNELGROUPS_ACCESSORY1,
      MANUALCONTROLSETTINGS_CHANNELGROUPS_ACCESSORY2]"

text \<open>
  Modelled from the spec: the channel-group options are declared in the missing
  \<open>manualcontrolsettings.h\<close>. A group is its number; the seven receiver groups are
  numbered in the order in which \<open>updateRcvrActivityCompare\<close> lists them and
  \<open>None\<close> follows the last one, as the tests \<open>>= MANUALCONTROLSETTINGS_CHANNELGROUPS_NONE\<close>
  require.
\<close>

definition MANUALCONTROLSETTINGS_CHANNELGROUPS_PWM :: nat where
  "MANUALCONTROLSETTINGS_CHANNELGROUPS_PWM = 0"
definition MANUALCONTROLSETTINGS_CHANNELGROUPS_PPM :: nat where
  "MANUALCONTROLSETTINGS_CHANNELGROUPS_PPM = 1"
definition MANUALCONTROLSETTINGS_CHANNELGROUPS_DSMMAINPORT :: nat where
  "MANUALCONTROLSETTINGS_CHANNELGROUPS_DSMMAINPORT = 2"
definition MANUALCONTROLSETTINGS_CHANNELGROUPS_DSMFLEXIPORT :: nat where
  "MANUALCONTROLSETTINGS_CHANNELGROUPS_DSMFLEXIPORT = 3"
definition MANUALCONTROLSETTINGS_CHANNELGROUPS_SBUS :: nat where
  "MANUALCONTROLSETTINGS_CHANNELGROUPS_SBUS = 4"
definition MANUALCONTROLSETTINGS_CHANNELGROUPS_GCS :: nat where
  "MANUALCONTROLSETTINGS_CHANNELGROUPS_GCS = 5"
definition MANUALCONTROLSETTINGS_CHANNELGROUPS_OPLINK :: nat where
  "MANUALCONTROLSETTINGS_CHANNELGROUPS_OPLINK = 6"
definition MANUALCONTROLSETTINGS_CHANNELGROUPS_NONE :: nat where
  "MANUALCONTROLSETTINGS_CHANNELGROUPS_NONE = 7"

text \<open>
  Modelled from the spec: \<open>FailsafeBehavior\<close> names a flight-mode slot or none; the
  module subtracts 1 from it to index the slots, so none is 0.
\<close>

definition MANUALCONTROLSETTINGS_FAILSAFEBEHAVIOR_NONE :: "8 word" where
  "MANUALCONTROLSETTINGS_FAILSAFEBEHAVIOR_NONE = 0"

datatype ReceiverActivityActiveGroupOptions =
    RECEIVERACTIVITY_ACTIVEGROUP_PWM
  | RECEIVERACTIVITY_ACTIVEGROUP_PPM
  | RECEIVERACTIVITY_ACTIVEGROUP_DSMMAINPORT
  | RECEIVERACTIVITY_ACTIVEGROUP_DSMFLEXIPORT
  | RECEIVERACTIVITY_ACTIVEGROUP_SBUS
  | RECEIVERACTIVITY_ACTIVEGROUP_GCS
  | RECEIVERACTIVITY_ACTIVEGROUP_OPLINK
  | RECEIVERACTIVITY_ACTIVEGROUP_NONE

record FlightStatusData =
  Armed :: FlightStatusArmedOptions
  FlightMode :: FlightStatusFlightModeOptions

record ManualControlCommandData =
  Throttle :: float
  Roll :: float
  Pitch :: float
  Yaw :: float
  Collective :: float
  Channel :: "ChannelElem \<Rightarrow> 16 word"
  Connected :: bool
  FlightModeSwitchPosition :: "8 word"

record ManualControlSettingsData =
  ChannelGroups :: "ChannelElem \<Rightarrow> nat"
  ChannelNumber :: "ChannelElem \<Rightarrow> 8 word"
  ChannelMin :: "ChannelElem \<Rightarrow> 16 word"
  ChannelNeutral :: "ChannelElem \<Rightarrow> 16 word"
  ChannelMax :: "ChannelElem \<Rightarrow> 16 word"
  ResponseTime :: "ChannelElem \<Rightarrow> 16 word"
  Deadband :: float
  Arming :: ManualControlSettingsArmingOptions
  ArmingSequenceTime :: "16 word"
  DisarmingSequenceTime :: "16 word"
  ArmedTimeout :: "16 word"
  FailsafeBehavior :: "8 word"
  FlightModeNumber :: "8 word"
  FlightModePosition :: "FlightStatusFlightModeOptions list"

record ReceiverActivityData =
  ActiveGroup :: ReceiverActivityActiveGroupOptions
  ActiveChannel :: "8 word"

text \<open>
  \<open>struct rcvr_activity_fsm\<close>. The array \<open>prev\<close> has twelve slots and is only indexed
  by loop counters that stay below twelve, so it is a function of the slot number.
\<close>

record rcvr_activity_fsm =
  fsm_group :: nat
  fsm_prev :: "nat \<Rightarrow> 16 word"
  fsm_sample_count :: "8 word"

text \<open>
  The calls of the command dispatcher. What the called functions write to the actuator,
  stabilization, path and altitude objects is outside this development; a call is
  recorded with its arguments, and the alarms that the called function raises are
  applied to the alarm object.
\<close>

datatype dispatch_call =
    CALL_updateActuatorDesired ManualControlCommandData
  | CALL_updateStabilizationDesired ManualControlCommandData
  | CALL_altitudeHoldDesired ManualControlCommandData bool
  | CALL_updatePathDesired ManualControlCommandData bool bool
  | CALL_updateLandDesired ManualControlCommandData bool

text \<open>
  Constants and tables of the platform that the sources use and do not define: the tick
  length, the table of bound receiver drivers, the three receiver error codes as the
  module sees them after the cast to \<open>uint16_t\<close>, the number of flight-mode slots, the
  macro \<open>PARSE_FLIGHT_MODE\<close>, whether the input low-pass filter is compiled in and
  whether the build is for the Revolution board (\<open>REVOLUTION\<close>; without it the guidance
  functions are stubs that raise an alarm). Every function below takes them as the
  parameter \<open>P\<close>.
\<close>

record platform =
  portTICK_RATE_MS :: "32 word"
  pios_rcvr_group_map :: "nat \<Rightarrow> 32 word"
  PIOS_RCVR_TIMEOUT :: "16 word"
  PIOS_RCVR_INVALID :: "16 word"
  PIOS_RCVR_NODRIVER :: "16 word"
  MANUALCONTROLSETTINGS_FLIGHTMODEPOSITION_NUMELEM :: nat
  PARSE_FLIGHT_MODE :: "FlightStatusFlightModeOptions \<Rightarrow> FlightModeCategory"
  USE_INPUT_LPF :: bool
  REVOLUTION :: bool

text \<open>
  What one cycle of the task obtains from outside the module: the settings object, the
  receiver driver (\<open>PIOS_RCVR_Read\<close>, its result already stored in 16 bits), the tick
  counter, the telemetry link state, the check of the vehicle configuration that
  \<open>okToArm\<close> runs first (it may change alarms) and the result of setting an accessory
  instance.
\<close>

record environment =
  ManualControlSettingsGet :: ManualControlSettingsData
  PIOS_RCVR_Read :: "32 word \<Rightarrow> nat \<Rightarrow> 16 word"
  xTaskGetTickCount :: "32 word"
  FlightTelemetryStats_connected :: bool
  configuration_check :: "SystemAlarmsData \<Rightarrow> SystemAlarmsData"
  AccessoryDesiredInstSet_ok :: "nat \<Rightarrow> bool"

text \<open>
  The variables of the module that live across cycles (the statics, and the locals of
  \<open>manualControlTask\<close> declared before its loop) and the UAVObjects it reads and
  writes.
\<close>

record module_state =
  armState :: ArmState_t
  lastSysTime :: "32 word"
  armedDisarmStart :: "32 word"
  lastSysTimeLPF :: "32 word"
  inputFiltered :: "ChannelElem \<Rightarrow> float"
  activity_fsm :: rcvr_activity_fsm
  lastFlightMode :: FlightStatusFlightModeOptions
  cmd :: ManualControlCommandData
  flightStatus :: FlightStatusData
  flightMode :: float
  disconnected_count :: "8 word"
  connected_count :: "8 word"
  lastActivityTime :: "32 word"
  scaledChannel :: "ChannelElem \<Rightarrow> float"
  obj_ManualControlCommand :: ManualControlCommandData
  obj_ManualControlCommand_ReadOnly :: bool
  obj_FlightStatus :: FlightStatusData
  obj_SystemAlarms :: SystemAlarmsData
  obj_ReceiverActivity :: ReceiverActivityData
  obj_AccessoryDesired :: "nat \<Rightarrow> float"
  dispatched :: "dispatch_call list"

section \<open>Alarms and arming\<close>

definition AlarmsSet ::
  "SystemAlarmsAlarmElem \<Rightarrow> SystemAlarmsAlarmOptions \<Rightarrow> module_state \<Rightarrow> module_state" where
  "AlarmsSet alarm severity s = s\<lparr>obj_SystemAlarms := (obj_SystemAlarms s)(alarm := severity)\<rparr>"

definition AlarmsClear :: "SystemAlarmsAlarmElem \<Rightarrow> module_state \<Rightarrow> module_state" where
  "AlarmsClear alarm s = AlarmsSet alarm SYSTEMALARMS_ALARM_OK s"

definition timeDifferenceMs :: "platform \<Rightarrow> 32 word \<Rightarrow> 32 word \<Rightarrow> 32 word" where
  "timeDifferenceMs P start_time end_time = (end_time - start_time) * portTICK_RATE_MS P"

text \<open>The alarm loop of \<open>okToArm\<close>, with its \<open>continue\<close> and its early \<open>return false\<close>.\<close>

fun okToArm_alarms :: "SystemAlarmsAlarmElem list \<Rightarrow> SystemAlarmsData \<Rightarrow> bool" where
  "okToArm_alarms [] alarms = True"
| "okToArm_alarms (i # rest) alarms =
     (if severity_rank (alarms i) \<ge> severity_rank SYSTEMALARMS_ALARM_ERROR
      then (if i = SYSTEMALARMS_ALARM_GPS \<or> i = SYSTEMALARMS_ALARM_TELEMETRY
            then okToArm_alarms rest alarms
            else False)
      else okToArm_alarms rest alarms)"

definition okToArm :: "environment \<Rightarrow> module_state \<Rightarrow> bool \<times> module_state" where
  "okToArm E s =
     (let s1 = s\<lparr>obj_SystemAlarms := configuration_check E (obj_SystemAlarms s)\<rparr>
      in if \<not> okToArm_alarms SYSTEMALARMS_ALARM_ELEMS (obj_SystemAlarms s1) then (False, s1)
         else (case FlightMode (obj_FlightStatus s1) of
                 FLIGHTSTATUS_FLIGHTMODE_MANUAL \<Rightarrow> (True, s1)
               | FLIGHTSTATUS_FLIGHTMODE_STABILIZED1 \<Rightarrow> (True, s1)
               | FLIGHTSTATUS_FLIGHTMODE_STABILIZED2 \<Rightarrow> (True, s1)
               | FLIGHTSTATUS_FLIGHTMODE_STABILIZED3 \<Rightarrow> (True, s1)
               | _ \<Rightarrow> (False, s1)))"

definition forcedDisArm :: "module_state \<Rightarrow> bool" where
  "forcedDisArm s = (obj_SystemAlarms s SYSTEMALARMS_ALARM_GUIDANCE = SYSTEMALARMS_ALARM_CRITICAL)"

definition setArmedIfChanged :: "FlightStatusArmedOptions \<Rightarrow> module_state \<Rightarrow> module_state" where
  "setArmedIfChanged val s =
     (if Armed (obj_FlightStatus s) \<noteq> val
      then s\<lparr>obj_FlightStatus := (obj_FlightStatus s)\<lparr>Armed := val\<rparr>\<rparr>
      else s)"

definition arming_is_accessory :: "ManualControlSettingsArmingOptions \<Rightarrow> bool" where
  "arming_is_accessory a =
     (a = MANUALCONTROLSETTINGS_ARMING_ACCESSORY0 \<or> a = MANUALCONTROLSETTINGS_ARMING_ACCESSORY1
      \<or> a = MANUALCONTROLSETTINGS_ARMING_ACCESSORY2)"

text \<open>The \<open>switch\<close> of \<open>processArm\<close> that computes \<open>armingInputLevel\<close>; its initial value is 0.\<close>

fun armingInputLevel ::
  "ManualControlSettingsArmingOptions \<Rightarrow> ManualControlCommandData \<Rightarrow> int \<Rightarrow> float" where
  "armingInputLevel MANUALCONTROLSETTINGS_ARMING_ROLLLEFT c armSwitch = 1 * Roll c"
| "armingInputLevel MANUALCONTROLSETTINGS_ARMING_ROLLRIGHT c armSwitch = - 1 * Roll c"
| "armingInputLevel MANUALCONTROLSETTINGS_ARMING_PITCHFORWARD c armSwitch = 1 * Pitch c"
| "armingInputLevel MANUALCONTROLSETTINGS_ARMING_PITCHAFT c armSwitch = - 1 * Pitch c"
| "armingInputLevel MANUALCONTROLSETTINGS_ARMING_YAWLEFT c armSwitch = 1 * Yaw c"
| "armingInputLevel MANUALCONTROLSETTINGS_ARMING_YAWRIGHT c armSwitch = - 1 * Yaw c"
| "armingInputLevel MANUALCONTROLSETTINGS_ARMING_ACCESSORY0 c armSwitch = - 1 * of_int armSwitch"
| "armingInputLevel MANUALCONTROLSETTINGS_ARMING_ACCESSORY1 c armSwitch = - 1 * of_int armSwitch"
| "armingInputLevel MANUALCONTROLSETTINGS_ARMING_ACCESSORY2 c armSwitch = - 1 * of_int armSwitch"
| "armingInputLevel _ c armSwitch = 0"

definition manualArm :: "float \<Rightarrow> bool" where
  "manualArm level = (level \<le> - ARMED_THRESHOLD)"

definition manualDisarm :: "float \<Rightarrow> bool" where
  "manualDisarm level = (\<not> level \<le> - ARMED_THRESHOLD \<and> level \<ge> ARMED_THRESHOLD)"

text \<open>
  The final \<open>switch (armState)\<close> of \<open>processArm\<close>, reached with the throttle low and a
  gesture configuration.
\<close>

definition processArm_gesture ::
  "platform \<Rightarrow> environment \<Rightarrow> ManualControlSettingsData \<Rightarrow> bool \<Rightarrow> bool \<Rightarrow> module_state
     \<Rightarrow> module_state" where
  "processArm_gesture P E settings mArm mDisarm s =
     (case armState s of
        ARM_STATE_DISARMED \<Rightarrow>
          (let s1 = setArmedIfChanged FLIGHTSTATUS_ARMED_DISARMED s
           in if mArm
              then (let (ok, s2) = okToArm E s1
                    in if ok
                       then s2\<lparr>armedDisarmStart := lastSysTime s2, armState := ARM_STATE_ARMING_MANUAL\<rparr>
                       else s2)
              else s1)
      | ARM_STATE_ARMING_MANUAL \<Rightarrow>
          (let s1 = setArmedIfChanged FLIGHTSTATUS_ARMED_ARMING s
           in if mArm \<and> unat (timeDifferenceMs P (armedDisarmStart s1) (lastSysTime s1))
                          > unat (ArmingSequenceTime settings)
              then s1\<lparr>armState := ARM_STATE_ARMED\<rparr>
              else if \<not> mArm then s1\<lparr>armState := ARM_STATE_DISARMED\<rparr>
              else s1)
      | ARM_STATE_ARMED \<Rightarrow>
          setArmedIfChanged FLIGHTSTATUS_ARMED_ARMED
            (s\<lparr>armedDisarmStart := lastSysTime s, armState := ARM_STATE_DISARMING_TIMEOUT\<rparr>)
      | ARM_STATE_DISARMING_TIMEOUT \<Rightarrow>
          (let s1 = (if ArmedTimeout settings \<noteq> 0
                        \<and> unat (timeDifferenceMs P (armedDisarmStart s) (lastSysTime s))
                            > unat (ArmedTimeout settings)
                     then s\<lparr>armState := ARM_STATE_DISARMED\<rparr>
                     else s)
           in if mDisarm
              then s1\<lparr>armedDisarmStart := lastSysTime s1, armState := ARM_STATE_DISARMING_MANUAL\<rparr>
              else s1)
      | ARM_STATE_DISARMING_MANUAL \<Rightarrow>
          (if mDisarm \<and> unat (timeDifferenceMs P (armedDisarmStart s) (lastSysTime s))
                         > unat (DisarmingSequenceTime settings)
           then s\<lparr>armState := ARM_STATE_DISARMED\<rparr>
           else if \<not> mDisarm then s\<lparr>armState := ARM_STATE_ARMED\<rparr>
           else s))"

text \<open>
  \<open>processArm(cmd, settings, armSwitch)\<close>. The command is only read. \<open>armSwitch\<close> is an
  \<open>int8_t\<close> holding -1, 0 or 1.
\<close>

definition processArm ::
  "platform \<Rightarrow> environment \<Rightarrow> ManualControlCommandData \<Rightarrow> ManualControlSettingsData \<Rightarrow> int
     \<Rightarrow> module_state \<Rightarrow> module_state" where
  "processArm P E c settings armSwitch s =
     (let lowThrottle0 = (Throttle c < 0);
          lowThrottle1 = (if arming_is_accessory (Arming settings) \<and> armSwitch < 0
                          then True else lowThrottle0)
      in if forcedDisArm s then setArmedIfChanged FLIGHTSTATUS_ARMED_DISARMED s
         else if Arming settings = MANUALCONTROLSETTINGS_ARMING_ALWAYSDISARMED
         then setArmedIfChanged FLIGHTSTATUS_ARMED_DISARMED s
         else
           (let lowThrottle = (if \<not> Connected c then True else lowThrottle1)
            in if \<not> lowThrottle
               then (case armState s of
                       ARM_STATE_DISARMING_MANUAL \<Rightarrow> s\<lparr>armState := ARM_STATE_ARMED\<rparr>
                     | ARM_STATE_DISARMING_TIMEOUT \<Rightarrow> s\<lparr>armState := ARM_STATE_ARMED\<rparr>
                     | ARM_STATE_ARMING_MANUAL \<Rightarrow> s\<lparr>armState := ARM_STATE_DISARMED\<rparr>
                     | _ \<Rightarrow> s)
               else if Arming settings = MANUALCONTROLSETTINGS_ARMING_ALWAYSARMED
               then setArmedIfChanged FLIGHTSTATUS_ARMED_ARMED s
               else
                 (let level = armingInputLevel (Arming settings) c armSwitch
                  in processArm_gesture P E settings (manualArm level) (manualDisarm level) s)))"

section \<open>Receiver activity monitor\<close>

text \<open>
  What stops the program instead of returning: the failed \<open>PIOS_Assert(0)\<close> of
  \<open>updateRcvrActivityCompare\<close>, and a read beyond the end of the flight-mode table,
  which C leaves undefined. A function that can reach one of them returns
  \<open>fault + result\<close>.
\<close>

datatype fault = ASSERT_FAILED | OUT_OF_BOUNDS

definition resetRcvrActivity :: "module_state \<Rightarrow> module_state" where
  "resetRcvrActivity s =
     (let data = obj_ReceiverActivity s;
          s1 = (if ActiveGroup data \<noteq> RECEIVERACTIVITY_ACTIVEGROUP_NONE \<and> ActiveChannel data \<noteq> 255
                then s\<lparr>obj_ReceiverActivity :=
                         data\<lparr>ActiveGroup := RECEIVERACTIVITY_ACTIVEGROUP_NONE, ActiveChannel := 255\<rparr>\<rparr>
                else s)
      in s1\<lparr>activity_fsm := (activity_fsm s1)\<lparr>fsm_group := 0, fsm_sample_count := 0\<rparr>\<rparr>)"

text \<open>The loop \<open>for (channel = 1; channel <= max_channels; channel++)\<close> as a fold.\<close>

definition updateRcvrActivitySample ::
  "environment \<Rightarrow> 32 word \<Rightarrow> (nat \<Rightarrow> 16 word) \<Rightarrow> nat \<Rightarrow> (nat \<Rightarrow> 16 word)" where
  "updateRcvrActivitySample E rcvr_id samples max_channels =
     fold (\<lambda>channel smp. smp(channel - 1 := PIOS_RCVR_Read E rcvr_id channel))
       [1 ..< Suc max_channels] samples"

text \<open>The \<open>switch (fsm->group)\<close>; its \<open>default\<close> is the failed assertion.\<close>

definition activeGroupOf :: "nat \<Rightarrow> ReceiverActivityActiveGroupOptions option" where
  "activeGroupOf g =
     (if g = MANUALCONTROLSETTINGS_CHANNELGROUPS_PWM then Some RECEIVERACTIVITY_ACTIVEGROUP_PWM
      else if g = MANUALCONTROLSETTINGS_CHANNELGROUPS_PPM then Some RECEIVERACTIVITY_ACTIVEGROUP_PPM
      else if g = MANUALCONTROLSETTINGS_CHANNELGROUPS_DSMMAINPORT
        then Some RECEIVERACTIVITY_ACTIVEGROUP_DSMMAINPORT
      else if g = MANUALCONTROLSETTINGS_CHANNELGROUPS_DSMFLEXIPORT
        then Some RECEIVERACTIVITY_ACTIVEGROUP_DSMFLEXIPORT
      else if g = MANUALCONTROLSETTINGS_CHANNELGROUPS_SBUS then Some RECEIVERACTIVITY_ACTIVEGROUP_SBUS
      else if g = MANUALCONTROLSETTINGS_CHANNELGROUPS_GCS then Some RECEIVERACTIVITY_ACTIVEGROUP_GCS
      else if g = MANUALCONTROLSETTINGS_CHANNELGROUPS_OPLINK
        then Some RECEIVERACTIVITY_ACTIVEGROUP_OPLINK
      else None)"

text \<open>One iteration of the loop of \<open>updateRcvrActivityCompare\<close>.\<close>

definition compareChannel ::
  "environment \<Rightarrow> 32 word \<Rightarrow> nat \<Rightarrow> fault + (bool \<times> module_state)
     \<Rightarrow> fault + (bool \<times> module_state)" where
  "compareChannel E rcvr_id channel acc =
     (case acc of
        Inl f \<Rightarrow> Inl f
      | Inr (activity_updated, s) \<Rightarrow>
          (let prev = fsm_prev (activity_fsm s) (channel - 1);
               curr = PIOS_RCVR_Read E rcvr_id channel;
               delta = (if curr > prev then curr - prev else prev - curr)
           in if unat delta > RCVR_ACTIVITY_MONITOR_MIN_RANGE
              then (case activeGroupOf (fsm_group (activity_fsm s)) of
                      None \<Rightarrow> Inl ASSERT_FAILED
                    | Some grp \<Rightarrow>
                        Inr (True,
                             s\<lparr>obj_ReceiverActivity :=
                                 (obj_ReceiverActivity s)\<lparr>ActiveGroup := grp,
                                                           ActiveChannel := of_nat channel\<rparr>\<rparr>))
              else Inr (activity_updated, s)))"

definition updateRcvrActivityCompare ::
  "environment \<Rightarrow> 32 word \<Rightarrow> module_state \<Rightarrow> fault + (bool \<times> module_state)" where
  "updateRcvrActivityCompare E rcvr_id s =
     fold (compareChannel E rcvr_id) [1 ..< Suc RCVR_ACTIVITY_MONITOR_CHANNELS_PER_GROUP]
       (Inr (False, s))"

text \<open>
  The search loop after the label \<open>group_completed\<close>; the first argument counts the
  iterations that are left of \<open>MANUALCONTROLSETTINGS_CHANNELGROUPS_NONE\<close>.
\<close>

fun nextGroupSearch ::
  "platform \<Rightarrow> environment \<Rightarrow> nat \<Rightarrow> rcvr_activity_fsm \<Rightarrow> rcvr_activity_fsm" where
  "nextGroupSearch P E 0 fsm = fsm"
| "nextGroupSearch P E (Suc k) fsm =
     (let fsm1 = fsm\<lparr>fsm_group := fsm_group fsm + 1\<rparr>;
          fsm2 = (if fsm_group fsm1 \<ge> MANUALCONTROLSETTINGS_CHANNELGROUPS_NONE
                  then fsm1\<lparr>fsm_group := 0\<rparr> else fsm1)
      in if pios_rcvr_group_map P (fsm_group fsm2) \<noteq> 0
         then fsm2\<lparr>fsm_prev := updateRcvrActivitySample E (pios_rcvr_group_map P (fsm_group fsm2))
                                  (fsm_prev fsm2) RCVR_ACTIVITY_MONITOR_CHANNELS_PER_GROUP,
                   fsm_sample_count := fsm_sample_count fsm2 + 1\<rparr>
         else nextGroupSearch P E k fsm2)"

definition group_completed :: "platform \<Rightarrow> environment \<Rightarrow> module_state \<Rightarrow> module_state" where
  "group_completed P E s =
     s\<lparr>activity_fsm := nextGroupSearch P E MANUALCONTROLSETTINGS_CHANNELGROUPS_NONE
                          ((activity_fsm s)\<lparr>fsm_sample_count := 0\<rparr>)\<rparr>"

definition updateRcvrActivity ::
  "platform \<Rightarrow> environment \<Rightarrow> module_state \<Rightarrow> fault + (bool \<times> module_state)" where
  "updateRcvrActivity P E s0 =
     (let s = (if fsm_group (activity_fsm s0) \<ge> MANUALCONTROLSETTINGS_CHANNELGROUPS_NONE
               then resetRcvrActivity s0 else s0);
          fsm = activity_fsm s;
          rcvr_id = pios_rcvr_group_map P (fsm_group fsm)
      in if rcvr_id = 0 then Inr (False, group_completed P E s)
         else if fsm_sample_count fsm = 0
         then Inr (False,
                   s\<lparr>activity_fsm :=
                       fsm\<lparr>fsm_prev := updateRcvrActivitySample E rcvr_id (fsm_prev fsm)
                                           RCVR_ACTIVITY_MONITOR_CHANNELS_PER_GROUP,
                           fsm_sample_count := fsm_sample_count fsm + 1\<rparr>\<rparr>)
         else (case updateRcvrActivityCompare E rcvr_id s of
                 Inl f \<Rightarrow> Inl f
               | Inr (activity_updated, s1) \<Rightarrow> Inr (activity_updated, group_completed P E s1)))"

text \<open>
  The next bound group as the specification describes it: the first group after the
  current one, wrapping past the last group, that has a driver.
\<close>

definition next_bound_group :: "platform \<Rightarrow> nat \<Rightarrow> nat option" where
  "next_bound_group P g =
     find (\<lambda>h. pios_rcvr_group_map P h \<noteq> 0)
       (map (\<lambda>k. (g + k) mod MANUALCONTROLSETTINGS_CHANNELGROUPS_NONE)
          [1 ..< Suc MANUALCONTROLSETTINGS_CHANNELGROUPS_NONE])"

section \<open>The task cycle\<close>

definition UPDATE_PERIOD_MS :: "32 word" where
  "UPDATE_PERIOD_MS = 20"

text \<open>
  The value that the channel-reading loop stores in \<open>cmd.Channel[n]\<close>: the invalid code
  when the channel has no group, the driver's reading otherwise.
\<close>

definition channelValue ::
  "platform \<Rightarrow> environment \<Rightarrow> ManualControlSettingsData \<Rightarrow> ChannelElem \<Rightarrow> 16 word" where
  "channelValue P E settings n =
     (if ChannelGroups settings n \<ge> MANUALCONTROLSETTINGS_CHANNELGROUPS_NONE
      then PIOS_RCVR_INVALID P
      else PIOS_RCVR_Read E (pios_rcvr_group_map P (ChannelGroups settings n))
             (unat (ChannelNumber settings n)))"

text \<open>One iteration of the loop that reads the channels.\<close>

definition readChannel ::
  "platform \<Rightarrow> environment \<Rightarrow> ManualControlSettingsData \<Rightarrow> ChannelElem
     \<Rightarrow> bool \<times> module_state \<Rightarrow> bool \<times> module_state" where
  "readChannel P E settings n acc =
     (case acc of (valid_input_detected, s) \<Rightarrow>
        (let v = channelValue P E settings n;
             s1 = s\<lparr>cmd := (cmd s)\<lparr>Channel := (Channel (cmd s))(n := v)\<rparr>\<rparr>
         in if v = PIOS_RCVR_TIMEOUT P then (False, s1)
            else (valid_input_detected,
                  s1\<lparr>scaledChannel :=
                       (scaledChannel s1)
                         (n := scaleChannel v (ChannelMax settings n) (ChannelMin settings n)
                                 (ChannelNeutral settings n))\<rparr>)))"

definition readChannels ::
  "platform \<Rightarrow> environment \<Rightarrow> ManualControlSettingsData \<Rightarrow> module_state \<Rightarrow> bool \<times> module_state" where
  "readChannels P E settings s =
     fold (readChannel P E settings) MANUALCONTROLSETTINGS_CHANNELGROUPS_ELEMS (True, s)"

text \<open>The condition of the settings check that raises the critical alarm.\<close>

definition settingsInvalid ::
  "platform \<Rightarrow> ManualControlSettingsData \<Rightarrow> ManualControlCommandData \<Rightarrow> bool" where
  "settingsInvalid P settings c =
     (ChannelGroups settings MANUALCONTROLSETTINGS_CHANNELGROUPS_ROLL
        \<ge> MANUALCONTROLSETTINGS_CHANNELGROUPS_NONE
      \<or> ChannelGroups settings MANUALCONTROLSETTINGS_CHANNELGROUPS_PITCH
        \<ge> MANUALCONTROLSETTINGS_CHANNELGROUPS_NONE
      \<or> ChannelGroups settings MANUALCONTROLSETTINGS_CHANNELGROUPS_YAW
        \<ge> MANUALCONTROLSETTINGS_CHANNELGROUPS_NONE
      \<or> ChannelGroups settings MANUALCONTROLSETTINGS_CHANNELGROUPS_THROTTLE
        \<ge> MANUALCONTROLSETTINGS_CHANNELGROUPS_NONE
      \<or> Channel c MANUALCONTROLSETTINGS_CHANNELGROUPS_ROLL = PIOS_RCVR_INVALID P
      \<or> Channel c MANUALCONTROLSETTINGS_CHANNELGROUPS_PITCH = PIOS_RCVR_INVALID P
      \<or> Channel c MANUALCONTROLSETTINGS_CHANNELGROUPS_YAW = PIOS_RCVR_INVALID P
      \<or> Channel c MANUALCONTROLSETTINGS_CHANNELGROUPS_THROTTLE = PIOS_RCVR_INVALID P
      \<or> Channel c MANUALCONTROLSETTINGS_CHANNELGROUPS_ROLL = PIOS_RCVR_NODRIVER P
      \<or> Channel c MANUALCONTROLSETTINGS_CHANNELGROUPS_PITCH = PIOS_RCVR_NODRIVER P
      \<or> Channel c MANUALCONTROLSETTINGS_CHANNELGROUPS_YAW = PIOS_RCVR_NODRIVER P
      \<or> Channel c MANUALCONTROLSETTINGS_CHANNELGROUPS_THROTTLE = PIOS_RCVR_NODRIVER P
      \<or> unat (FlightModeNumber settings) < 1
      \<or> unat (FlightModeNumber settings) > MANUALCONTROLSETTINGS_FLIGHTMODEPOSITION_NUMELEM P
      \<or> (unat (FlightModeNumber settings) > 1
          \<and> (ChannelGroups settings MANUALCONTROLSETTINGS_CHANNELGROUPS_FLIGHTMODE
               \<ge> MANUALCONTROLSETTINGS_CHANNELGROUPS_NONE
             \<or> Channel c MANUALCONTROLSETTINGS_CHANNELGROUPS_FLIGHTMODE = PIOS_RCVR_INVALID P
             \<or> Channel c MANUALCONTROLSETTINGS_CHANNELGROUPS_FLIGHTMODE = PIOS_RCVR_NODRIVER P)))"

text \<open>
  The failed consistency check as the specification describes it, on the settings and
  the receiver: a required channel (roll, pitch, yaw, throttle) whose group is None or
  beyond, or that reads the invalid or no-driver code; a flight-mode count outside 1 to
  the number of slots; or, with more than one flight mode, a flight-mode channel that is
  unbound or reads one of the two codes.
\<close>

definition REQUIRED_CHANNELS :: "ChannelElem list" where
  "REQUIRED_CHANNELS =
     [MANUALCONTROLSETTINGS_CHANNELGROUPS_ROLL, MANUALCONTROLSETTINGS_CHANNELGROUPS_PITCH,
      MANUALCONTROLSETTINGS_CHANNELGROUPS_YAW, MANUALCONTROLSETTINGS_CHANNELGROUPS_THROTTLE]"

definition channelUnusable ::
  "platform \<Rightarrow> environment \<Rightarrow> ManualControlSettingsData \<Rightarrow> ChannelElem \<Rightarrow> bool" where
  "channelUnusable P E settings n =
     (ChannelGroups settings n \<ge> MANUALCONTROLSETTINGS_CHANNELGROUPS_NONE
      \<or> channelValue P E settings n = PIOS_RCVR_INVALID P
      \<or> channelValue P E settings n = PIOS_RCVR_NODRIVER P)"

definition configInconsistent ::
  "platform \<Rightarrow> environment \<Rightarrow> ManualControlSettingsData \<Rightarrow> bool" where
  "configInconsistent P E settings =
     (list_ex (channelUnusable P E settings) REQUIRED_CHANNELS
      \<or> unat (FlightModeNumber settings) < 1
      \<or> unat (FlightModeNumber settings) > MANUALCONTROLSETTINGS_FLIGHTMODEPOSITION_NUMELEM P
      \<or> (unat (FlightModeNumber settings) > 1
          \<and> channelUnusable P E settings MANUALCONTROLSETTINGS_CHANNELGROUPS_FLIGHTMODE))"

text \<open>
  Valid manual input as the task determines it before the hysteresis: no channel reads
  the timeout code and the four required channels lie in their accepted range.
\<close>

definition inputValid :: "platform \<Rightarrow> environment \<Rightarrow> ManualControlSettingsData \<Rightarrow> bool" where
  "inputValid P E settings =
     (\<not> list_ex (\<lambda>n. channelValue P E settings n = PIOS_RCVR_TIMEOUT P)
          MANUALCONTROLSETTINGS_CHANNELGROUPS_ELEMS
      \<and> list_all (\<lambda>n. validInputRange (ChannelMin settings n) (ChannelMax settings n)
                         (channelValue P E settings n)) REQUIRED_CHANNELS)"

text \<open>The branch taken when the settings check fails, up to its \<open>continue\<close>.\<close>

definition settingsInvalidBranch :: "module_state \<Rightarrow> module_state" where
  "settingsInvalidBranch s =
     (let s1 = AlarmsSet SYSTEMALARMS_ALARM_MANUALCONTROL SYSTEMALARMS_ALARM_CRITICAL s;
          s2 = s1\<lparr>cmd := (cmd s1)\<lparr>Connected := False\<rparr>\<rparr>;
          s3 = s2\<lparr>obj_ManualControlCommand := cmd s2\<rparr>
      in setArmedIfChanged FLIGHTSTATUS_ARMED_DISARMED s3)"

definition validInput ::
  "ManualControlSettingsData \<Rightarrow> ManualControlCommandData \<Rightarrow> bool \<Rightarrow> bool" where
  "validInput settings c valid_input_detected =
     (valid_input_detected
      \<and> (validInputRange (ChannelMin settings MANUALCONTROLSETTINGS_CHANNELGROUPS_THROTTLE)
           (ChannelMax settings MANUALCONTROLSETTINGS_CHANNELGROUPS_THROTTLE)
           (Channel c MANUALCONTROLSETTINGS_CHANNELGROUPS_THROTTLE)
         \<and> validInputRange (ChannelMin settings MANUALCONTROLSETTINGS_CHANNELGROUPS_ROLL)
             (ChannelMax settings MANUALCONTROLSETTINGS_CHANNELGROUPS_ROLL)
             (Channel c MANUALCONTROLSETTINGS_CHANNELGROUPS_ROLL)
         \<and> validInputRange (ChannelMin settings MANUALCONTROLSETTINGS_CHANNELGROUPS_YAW)
             (ChannelMax settings MANUALCONTROLSETTINGS_CHANNELGROUPS_YAW)
             (Channel c MANUALCONTROLSETTINGS_CHANNELGROUPS_YAW)
         \<and> validInputRange (ChannelMin settings MANUALCONTROLSETTINGS_CHANNELGROUPS_PITCH)
             (ChannelMax settings MANUALCONTROLSETTINGS_CHANNELGROUPS_PITCH)
             (Channel c MANUALCONTROLSETTINGS_CHANNELGROUPS_PITCH)))"

text \<open>
  The hysteresis on the connection status:
  \<open>if (valid && (++connected_count > 10)) {...} else if (!valid && (++disconnected_count > 10)) {...}\<close>.
  Each counter is incremented only when its side of the condition is evaluated.
\<close>

definition updateConnection :: "bool \<Rightarrow> module_state \<Rightarrow> module_state" where
  "updateConnection valid_input_detected s =
     (if valid_input_detected
      then (let s1 = s\<lparr>connected_count := connected_count s + 1\<rparr>
            in if connected_count s1 > 10
               then s1\<lparr>cmd := (cmd s1)\<lparr>Connected := True\<rparr>,
                       connected_count := 0, disconnected_count := 0\<rparr>
               else s1)
      else (let s1 = s\<lparr>disconnected_count := disconnected_count s + 1\<rparr>
            in if disconnected_count s1 > 10
               then s1\<lparr>cmd := (cmd s1)\<lparr>Connected := False\<rparr>,
                       connected_count := 0, disconnected_count := 0\<rparr>
               else s1))"

definition applyDeadband :: "float \<Rightarrow> float \<Rightarrow> float" where
  "applyDeadband val deadband =
     (if \<bar>val\<bar> < deadband then 0
      else if val > 0 then val - deadband
      else val + deadband)"

definition applyLPF ::
  "ManualControlSettingsData \<Rightarrow> float \<Rightarrow> ChannelElem \<Rightarrow> float \<Rightarrow> module_state
     \<Rightarrow> float \<times> module_state" where
  "applyLPF settings dT channel val s =
     (if ResponseTime settings channel \<noteq> 0
      then (let rt = of_nat (unat (ResponseTime settings channel));
                f = (rt * inputFiltered s channel + dT * val) / (rt + dT)
            in (f, s\<lparr>inputFiltered := (inputFiltered s)(channel := f)\<rparr>))
      else (val, s))"

text \<open>The block \<open>Set Accessory i\<close> of the disconnected branch.\<close>

definition disconnectedAccessory ::
  "environment \<Rightarrow> ManualControlSettingsData \<Rightarrow> nat \<Rightarrow> ChannelElem \<Rightarrow> module_state
     \<Rightarrow> module_state" where
  "disconnectedAccessory E settings i ch s =
     (if ChannelGroups settings ch \<noteq> MANUALCONTROLSETTINGS_CHANNELGROUPS_NONE
      then (if AccessoryDesiredInstSet_ok E i
            then s\<lparr>obj_AccessoryDesired := (obj_AccessoryDesired s)(i := 0)\<rparr>
            else AlarmsSet SYSTEMALARMS_ALARM_MANUALCONTROL SYSTEMALARMS_ALARM_WARNING s)
      else s)"

text \<open>
  The branch \<open>cmd.Connected == MANUALCONTROLCOMMAND_CONNECTED_FALSE\<close>. The index
  \<open>FailsafeBehavior - 1\<close> is computed on \<open>int\<close>.
\<close>

definition disconnectedBranch ::
  "environment \<Rightarrow> ManualControlSettingsData \<Rightarrow> module_state \<Rightarrow> fault + module_state" where
  "disconnectedBranch E settings s =
     (let s1 = s\<lparr>cmd := (cmd s)\<lparr>Throttle := - 1, Roll := 0, Yaw := 0, Pitch := 0,
                                 Collective := 0\<rparr>\<rparr>;
          r = (if FailsafeBehavior settings \<noteq> MANUALCONTROLSETTINGS_FAILSAFEBEHAVIOR_NONE
               then (let idx = uint (FailsafeBehavior settings) - 1
                     in if 0 \<le> idx \<and> nat idx < length (FlightModePosition settings)
                        then (let fs = (obj_FlightStatus s1)
                                         \<lparr>FlightMode := FlightModePosition settings ! nat idx\<rparr>
                              in Inr (s1\<lparr>cmd := (cmd s1)\<lparr>FlightModeSwitchPosition :=
                                                             FailsafeBehavior settings - 1\<rparr>,
                                         flightStatus := fs, obj_FlightStatus := fs\<rparr>))
                        else Inl OUT_OF_BOUNDS)
               else Inr s1)
      in case r of
           Inl f \<Rightarrow> Inl f
         | Inr s2 \<Rightarrow>
             Inr (disconnectedAccessory E settings 2 MANUALCONTROLSETTINGS_CHANNELGROUPS_ACCESSORY2
                   (disconnectedAccessory E settings 1 MANUALCONTROLSETTINGS_CHANNELGROUPS_ACCESSORY1
                     (disconnectedAccessory E settings 0 MANUALCONTROLSETTINGS_CHANNELGROUPS_ACCESSORY0
                       (AlarmsSet SYSTEMALARMS_ALARM_MANUALCONTROL SYSTEMALARMS_ALARM_WARNING s2)))))"

text \<open>The block \<open>Set Accessory i\<close> of the branch with valid input.\<close>

definition connectedAccessory ::
  "platform \<Rightarrow> environment \<Rightarrow> ManualControlSettingsData \<Rightarrow> float \<Rightarrow> nat \<Rightarrow> ChannelElem
     \<Rightarrow> ManualControlSettingsArmingOptions \<Rightarrow> int \<times> module_state \<Rightarrow> int \<times> module_state" where
  "connectedAccessory P E settings dT i ch arm acc =
     (case acc of (armSwitch, s) \<Rightarrow>
        (if ChannelGroups settings ch \<noteq> MANUALCONTROLSETTINGS_CHANNELGROUPS_NONE
         then (let v0 = scaledChannel s ch;
                   (v, s1) = (if USE_INPUT_LPF P then applyLPF settings dT ch v0 s else (v0, s));
                   armSwitch1 = (if Arming settings = arm
                                 then (if v > ARMED_THRESHOLD then 1
                                       else if v < - ARMED_THRESHOLD then - 1
                                       else armSwitch)
                                 else armSwitch)
               in if AccessoryDesiredInstSet_ok E i
                  then (armSwitch1, s1\<lparr>obj_AccessoryDesired := (obj_AccessoryDesired s1)(i := v)\<rparr>)
                  else (armSwitch1,
                        AlarmsSet SYSTEMALARMS_ALARM_MANUALCONTROL SYSTEMALARMS_ALARM_WARNING s1))
         else (armSwitch, s)))"

definition processFlightMode ::
  "ManualControlSettingsData \<Rightarrow> float \<Rightarrow> module_state \<Rightarrow> fault + module_state" where
  "processFlightMode settings fm s =
     (let pos = flightModeSwitchPos (FlightModeNumber settings) fm;
          s1 = s\<lparr>cmd := (cmd s)\<lparr>FlightModeSwitchPosition := pos\<rparr>\<rparr>
      in if unat pos < length (FlightModePosition settings)
         then (let newMode = FlightModePosition settings ! unat pos
               in Inr (if FlightMode (obj_FlightStatus s1) \<noteq> newMode
                       then s1\<lparr>obj_FlightStatus := (obj_FlightStatus s1)\<lparr>FlightMode := newMode\<rparr>\<rparr>
                       else s1))
         else Inl OUT_OF_BOUNDS)"

text \<open>The input low-pass filter on roll, pitch and yaw, compiled with \<open>USE_INPUT_LPF\<close>.\<close>

definition inputLPF ::
  "platform \<Rightarrow> environment \<Rightarrow> ManualControlSettingsData \<Rightarrow> module_state \<Rightarrow> float \<times> module_state" where
  "inputLPF P E settings s =
     (let thisSysTime = xTaskGetTickCount E;
          dT = (if thisSysTime > lastSysTimeLPF s
                then of_nat (unat ((thisSysTime - lastSysTimeLPF s) * portTICK_RATE_MS P))
                else of_nat (unat UPDATE_PERIOD_MS));
          s1 = s\<lparr>lastSysTimeLPF := thisSysTime\<rparr>;
          (r, s2) = applyLPF settings dT MANUALCONTROLSETTINGS_CHANNELGROUPS_ROLL (Roll (cmd s1)) s1;
          s3 = s2\<lparr>cmd := (cmd s2)\<lparr>Roll := r\<rparr>\<rparr>;
          (p, s4) = applyLPF settings dT MANUALCONTROLSETTINGS_CHANNELGROUPS_PITCH (Pitch (cmd s3)) s3;
          s5 = s4\<lparr>cmd := (cmd s4)\<lparr>Pitch := p\<rparr>\<rparr>;
          (y, s6) = applyLPF settings dT MANUALCONTROLSETTINGS_CHANNELGROUPS_YAW (Yaw (cmd s5)) s5
      in (dT, s6\<lparr>cmd := (cmd s6)\<lparr>Yaw := y\<rparr>\<rparr>))"

text \<open>The branch \<open>else if (valid_input_detected)\<close>; it yields \<open>armSwitch\<close>.\<close>

definition connectedBranch ::
  "platform \<Rightarrow> environment \<Rightarrow> ManualControlSettingsData \<Rightarrow> module_state
     \<Rightarrow> fault + (int \<times> module_state)" where
  "connectedBranch P E settings s =
     (let s1 = AlarmsClear SYSTEMALARMS_ALARM_MANUALCONTROL s;
          s2 = s1\<lparr>cmd := (cmd s1)
                     \<lparr>Roll := scaledChannel s1 MANUALCONTROLSETTINGS_CHANNELGROUPS_ROLL,
                      Pitch := scaledChannel s1 MANUALCONTROLSETTINGS_CHANNELGROUPS_PITCH,
                      Yaw := scaledChannel s1 MANUALCONTROLSETTINGS_CHANNELGROUPS_YAW,
                      Throttle := scaledChannel s1 MANUALCONTROLSETTINGS_CHANNELGROUPS_THROTTLE\<rparr>,
                  flightMode := scaledChannel s1 MANUALCONTROLSETTINGS_CHANNELGROUPS_FLIGHTMODE\<rparr>;
          s3 = (if Deadband settings > 0
                then s2\<lparr>cmd := (cmd s2)
                           \<lparr>Roll := applyDeadband (Roll (cmd s2)) (Deadband settings),
                            Pitch := applyDeadband (Pitch (cmd s2)) (Deadband settings),
                            Yaw := applyDeadband (Yaw (cmd s2)) (Deadband settings)\<rparr>\<rparr>
                else s2);
          (dT, s4) = (if USE_INPUT_LPF P then inputLPF P E settings s3 else (0, s3));
          collective = Channel (cmd s4) MANUALCONTROLSETTINGS_CHANNELGROUPS_COLLECTIVE;
          s5 = (if collective \<noteq> PIOS_RCVR_INVALID P \<and> collective \<noteq> PIOS_RCVR_NODRIVER P
                   \<and> collective \<noteq> PIOS_RCVR_TIMEOUT P
                then s4\<lparr>cmd := (cmd s4)
                           \<lparr>Collective :=
                              scaledChannel s4 MANUALCONTROLSETTINGS_CHANNELGROUPS_COLLECTIVE\<rparr>\<rparr>
                else s4);
          (armSwitch, s6) =
             connectedAccessory P E settings dT 2 MANUALCONTROLSETTINGS_CHANNELGROUPS_ACCESSORY2
               MANUALCONTROLSETTINGS_ARMING_ACCESSORY2
              (connectedAccessory P E settings dT 1 MANUALCONTROLSETTINGS_CHANNELGROUPS_ACCESSORY1
                 MANUALCONTROLSETTINGS_ARMING_ACCESSORY1
                (connectedAccessory P E settings dT 0 MANUALCONTROLSETTINGS_CHANNELGROUPS_ACCESSORY0
                   MANUALCONTROLSETTINGS_ARMING_ACCESSORY0 (0, s5)))
      in case processFlightMode settings (flightMode s6) s6 of
           Inl f \<Rightarrow> Inl f
         | Inr s7 \<Rightarrow> Inr (armSwitch, s7))"

text \<open>
  The call of \<open>updateStabilizationDesired\<close>: the function reads the flight status and
  raises the critical alarm when the mode is none of the three stabilized modes.
\<close>

definition call_updateStabilizationDesired :: "module_state \<Rightarrow> module_state" where
  "call_updateStabilizationDesired s =
     (let s1 = s\<lparr>dispatched := dispatched s @ [CALL_updateStabilizationDesired (cmd s)]\<rparr>
      in case FlightMode (obj_FlightStatus s1) of
           FLIGHTSTATUS_FLIGHTMODE_STABILIZED1 \<Rightarrow> s1
         | FLIGHTSTATUS_FLIGHTMODE_STABILIZED2 \<Rightarrow> s1
         | FLIGHTSTATUS_FLIGHTMODE_STABILIZED3 \<Rightarrow> s1
         | _ \<Rightarrow> AlarmsSet SYSTEMALARMS_ALARM_MANUALCONTROL SYSTEMALARMS_ALARM_CRITICAL s1)"

text \<open>
  The call of \<open>altitudeHoldDesired\<close>, \<open>updatePathDesired\<close> or \<open>updateLandDesired\<close>: in a
  build without \<open>REVOLUTION\<close> the function is a stub that only raises the error alarm.
\<close>

definition call_guidance :: "platform \<Rightarrow> dispatch_call \<Rightarrow> module_state \<Rightarrow> module_state" where
  "call_guidance P c s =
     (let s1 = s\<lparr>dispatched := dispatched s @ [c]\<rparr>
      in if REVOLUTION P then s1
         else AlarmsSet SYSTEMALARMS_ALARM_MANUALCONTROL SYSTEMALARMS_ALARM_ERROR s1)"

text \<open>
  The part of the loop body after the command has been updated: the flight status is
  read back and the command is dispatched by flight mode.
\<close>

definition dispatch :: "platform \<Rightarrow> module_state \<Rightarrow> module_state" where
  "dispatch P s0 =
     (let s = s0\<lparr>flightStatus := obj_FlightStatus s0\<rparr>;
          fm = FlightMode (flightStatus s);
          changed = (lastFlightMode s \<noteq> fm);
          s1 = (case PARSE_FLIGHT_MODE P fm of
                  FLIGHTMODE_UNDEFINED \<Rightarrow>
                    AlarmsSet SYSTEMALARMS_ALARM_MANUALCONTROL SYSTEMALARMS_ALARM_CRITICAL s
                | FLIGHTMODE_MANUAL \<Rightarrow>
                    s\<lparr>dispatched := dispatched s @ [CALL_updateActuatorDesired (cmd s)]\<rparr>
                | FLIGHTMODE_STABILIZED \<Rightarrow> call_updateStabilizationDesired s
                | FLIGHTMODE_TUNING \<Rightarrow> s
                | FLIGHTMODE_GUIDANCE \<Rightarrow>
                    (case fm of
                       FLIGHTSTATUS_FLIGHTMODE_ALTITUDEHOLD \<Rightarrow>
                         call_guidance P (CALL_altitudeHoldDesired (cmd s) changed) s
                     | FLIGHTSTATUS_FLIGHTMODE_ALTITUDEVARIO \<Rightarrow>
                         call_guidance P (CALL_altitudeHoldDesired (cmd s) changed) s
                     | FLIGHTSTATUS_FLIGHTMODE_POSITIONHOLD \<Rightarrow>
                         call_guidance P (CALL_updatePathDesired (cmd s) changed False) s
                     | FLIGHTSTATUS_FLIGHTMODE_POI \<Rightarrow>
                         call_guidance P (CALL_updatePathDesired (cmd s) changed False) s
                     | FLIGHTSTATUS_FLIGHTMODE_RETURNTOBASE \<Rightarrow>
                         call_guidance P (CALL_updatePathDesired (cmd s) changed True) s
                     | FLIGHTSTATUS_FLIGHTMODE_PATHPLANNER \<Rightarrow> s
                     | FLIGHTSTATUS_FLIGHTMODE_LAND \<Rightarrow>
                         call_guidance P (CALL_updateLandDesired (cmd s) changed) s
                     | _ \<Rightarrow>
                         AlarmsSet SYSTEMALARMS_ALARM_MANUALCONTROL SYSTEMALARMS_ALARM_CRITICAL s))
      in s1\<lparr>lastFlightMode := fm\<rparr>)"

text \<open>The receiver activity monitor at the head of the loop body.\<close>

definition activityMonitor :: "platform \<Rightarrow> environment \<Rightarrow> module_state \<Rightarrow> fault + module_state" where
  "activityMonitor P E s =
     (let r = (if Armed (flightStatus s) = FLIGHTSTATUS_ARMED_DISARMED
               then (case updateRcvrActivity P E s of
                       Inl f \<Rightarrow> Inl f
                     | Inr (activity_updated, s1) \<Rightarrow>
                         Inr (if activity_updated then s1\<lparr>lastActivityTime := lastSysTime s1\<rparr>
                              else s1))
               else Inr s)
      in case r of
           Inl f \<Rightarrow> Inl f
         | Inr s2 \<Rightarrow>
             Inr (if unat (timeDifferenceMs P (lastActivityTime s2) (lastSysTime s2)) > 5000
                  then (resetRcvrActivity s2)\<lparr>lastActivityTime := lastSysTime s2\<rparr>
                  else s2))"

text \<open>
  The part of the loop body that runs when the command object is writable and the
  settings check has passed: connection status, the two input branches, arming and the
  publication of the command.
\<close>

definition processInput ::
  "platform \<Rightarrow> environment \<Rightarrow> ManualControlSettingsData \<Rightarrow> bool \<Rightarrow> module_state
     \<Rightarrow> fault + module_state" where
  "processInput P E settings valid_input_detected s =
     (let valid = validInput settings (cmd s) valid_input_detected;
          s1 = updateConnection valid s;
          r = (if \<not> Connected (cmd s1)
               then (case disconnectedBranch E settings s1 of
                       Inl f \<Rightarrow> Inl f
                     | Inr s2 \<Rightarrow> Inr (0, s2))
               else if valid then connectedBranch P E settings s1
               else Inr (0, s1))
      in case r of
           Inl f \<Rightarrow> Inl f
         | Inr (armSwitch, s3) \<Rightarrow>
             (let s4 = processArm P E (cmd s3) settings armSwitch s3
              in Inr (s4\<lparr>obj_ManualControlCommand := cmd s4\<rparr>)))"

text \<open>
  The head of one iteration of \<open>while (1)\<close> in \<open>manualControlTask\<close>: \<open>vTaskDelayUntil\<close>
  advances \<open>lastSysTime\<close> by the period, the activity monitor runs, and a read-only
  command object is made writable again when the telemetry link is lost. The watchdog
  flag only writes to a device and is left out.
\<close>

definition cycleHead :: "platform \<Rightarrow> environment \<Rightarrow> module_state \<Rightarrow> fault + module_state" where
  "cycleHead P E s0 =
     (let sA = s0\<lparr>lastSysTime := lastSysTime s0 + UPDATE_PERIOD_MS div portTICK_RATE_MS P\<rparr>
      in case activityMonitor P E sA of
           Inl f \<Rightarrow> Inl f
         | Inr sB \<Rightarrow>
             Inr (if obj_ManualControlCommand_ReadOnly sB \<and> \<not> FlightTelemetryStats_connected E
                  then sB\<lparr>obj_ManualControlCommand_ReadOnly := False\<rparr>
                  else sB))"

text \<open>
  One iteration of the loop. The \<open>continue\<close> of the failed settings check ends the
  iteration before the dispatch. The optional USB output (\<open>PIOS_INCLUDE_USB_RCTX\<close>)
  only writes to a device and is left out.
\<close>

definition manualControlCycle ::
  "platform \<Rightarrow> environment \<Rightarrow> module_state \<Rightarrow> fault + module_state" where
  "manualControlCycle P E s0 =
     (let settings = ManualControlSettingsGet E
      in case cycleHead P E s0 of
           Inl f \<Rightarrow> Inl f
         | Inr sC \<Rightarrow>
             if \<not> obj_ManualControlCommand_ReadOnly sC
             then (case readChannels P E settings sC of (valid_input_detected, sD) \<Rightarrow>
                     if settingsInvalid P settings (cmd sD)
                     then Inr (settingsInvalidBranch sD)
                     else (case processInput P E settings valid_input_detected sD of
                             Inl f \<Rightarrow> Inl f
                           | Inr sE \<Rightarrow> Inr (dispatch P sE)))
             else Inr (dispatch P (sC\<lparr>cmd := obj_ManualControlCommand sC\<rparr>)))"


text \<open>
  The activity test as the specification words it: a channel is active when the
  absolute difference between its reading and its baseline exceeds 10 units, and
  activity is detected when some channel of the group is active.
\<close>

definition channel_active :: "environment \<Rightarrow> 32 word \<Rightarrow> rcvr_activity_fsm \<Rightarrow> nat \<Rightarrow> bool" where
  "channel_active E rcvr_id fsm channel =
     (\<bar>uint (PIOS_RCVR_Read E rcvr_id channel) - uint (fsm_prev fsm (channel - 1))\<bar> > 10)"

definition activity_detected :: "environment \<Rightarrow> 32 word \<Rightarrow> rcvr_activity_fsm \<Rightarrow> bool" where
  "activity_detected E rcvr_id fsm =
     list_ex (channel_active E rcvr_id fsm) [1 ..< Suc RCVR_ACTIVITY_MONITOR_CHANNELS_PER_GROUP]"

text \<open>
  The statements of \<open>manualControlTask\<close> before its loop: the counters start at 0, the
  arming state machine at Disarmed.
\<close>

definition manualControlTask_init :: "environment \<Rightarrow> module_state \<Rightarrow> module_state" where
  "manualControlTask_init E s =
     (let s1 = s\<lparr>flightMode := 0, disconnected_count := 0, connected_count := 0,
                 cmd := obj_ManualControlCommand s,
                 flightStatus := (obj_FlightStatus s)\<lparr>Armed := FLIGHTSTATUS_ARMED_DISARMED\<rparr>,
                 armState := ARM_STATE_DISARMED,
                 lastActivityTime := xTaskGetTickCount E\<rparr>;
          s2 = resetRcvrActivity s1
      in s2\<lparr>lastSysTime := xTaskGetTickCount E, scaledChannel := (\<lambda>n. 0)\<rparr>)"

section \<open>Runs of the arming state machine\<close>

text \<open>
  Between two calls of \<open>processArm\<close> the task advances \<open>lastSysTime\<close> and computes a new
  command and switch value, and other modules may change the alarms. A run of
  \<open>processArm\<close> steps is a list of these per-cycle inputs.
\<close>

record arm_input =
  in_cmd :: ManualControlCommandData
  in_armSwitch :: int
  in_lastSysTime :: "32 word"
  in_alarms :: SystemAlarmsData

definition processArm_step ::
  "platform \<Rightarrow> environment \<Rightarrow> ManualControlSettingsData \<Rightarrow> module_state \<Rightarrow> arm_input \<Rightarrow> module_state" where
  "processArm_step P E settings s i =
     processArm P E (in_cmd i) settings (in_armSwitch i)
       (s\<lparr>lastSysTime := in_lastSysTime i, obj_SystemAlarms := in_alarms i\<rparr>)"

definition processArm_run ::
  "platform \<Rightarrow> environment \<Rightarrow> ManualControlSettingsData \<Rightarrow> module_state \<Rightarrow> arm_input list \<Rightarrow> module_state" where
  "processArm_run P E settings s run = foldl (processArm_step P E settings) s run"

text \<open>The stick or switch is at the arming position (\<open>manualArm\<close> in the source).\<close>

definition gesture_held :: "ManualControlSettingsData \<Rightarrow> arm_input \<Rightarrow> bool" where
  "gesture_held settings i = manualArm (armingInputLevel (Arming settings) (in_cmd i) (in_armSwitch i))"

text \<open>The arming configuration is a gesture, neither always armed nor always disarmed.\<close>

definition gesture_configured :: "ManualControlSettingsData \<Rightarrow> bool" where
  "gesture_configured settings = (Arming settings \<noteq> MANUALCONTROLSETTINGS_ARMING_ALWAYSDISARMED \<and> Arming settings \<noteq> MANUALCONTROLSETTINGS_ARMING_ALWAYSARMED)"

text \<open>The throttle is low and the guidance alarm does not force a disarm.\<close>

definition low_throttle_unforced :: "arm_input \<Rightarrow> bool" where
  "low_throttle_unforced i = (Throttle (in_cmd i) < 0 \<and> in_alarms i SYSTEMALARMS_ALARM_GUIDANCE \<noteq> SYSTEMALARMS_ALARM_CRITICAL)"

text \<open>
  The gesture is held and the time since \<open>start\<close>, as \<open>timeDifferenceMs\<close> measures it, has
  not exceeded \<open>ArmingSequenceTime\<close>.
\<close>

definition held_within :: "platform \<Rightarrow> ManualControlSettingsData \<Rightarrow> 32 word \<Rightarrow> arm_input \<Rightarrow> bool" where
  "held_within P settings start i = (gesture_held settings i \<and> unat (timeDifferenceMs P start (in_lastSysTime i)) \<le> unat (ArmingSequenceTime settings))"

text \<open>
  The pre-arm check of \<open>okToArm\<close> passes on the alarms of this cycle and the current
  flight mode.
\<close>

definition ok_to_arm_at :: "environment \<Rightarrow> module_state \<Rightarrow> arm_input \<Rightarrow> bool" where
  "ok_to_arm_at E s i = fst (okToArm E (s\<lparr>obj_SystemAlarms := in_alarms i\<rparr>))"

text \<open>The arming gesture is a stick deflection (roll, pitch or yaw).\<close>

definition stick_gesture :: "ManualControlSettingsArmingOptions \<Rightarrow> bool" where
  "stick_gesture a =
     (a = MANUALCONTROLSETTINGS_ARMING_ROLLLEFT \<or> a = MANUALCONTROLSETTINGS_ARMING_ROLLRIGHT
      \<or> a = MANUALCONTROLSETTINGS_ARMING_PITCHFORWARD \<or> a = MANUALCONTROLSETTINGS_ARMING_PITCHAFT
      \<or> a = MANUALCONTROLSETTINGS_ARMING_YAWLEFT \<or> a = MANUALCONTROLSETTINGS_ARMING_YAWRIGHT)"

section \<open>A concrete configuration\<close>

text \<open>
  A platform with a PPM receiver, 1 ms ticks and the receiver error codes -1, -2, -3;
  settings with all channels on that receiver, pulse range 1000 to 2000 around 1500,
  arming by roll-left held for one second; and a disarmed, connected module state. They
  serve to evaluate the functions above on concrete inputs.
\<close>

definition ex_alarms :: SystemAlarmsData where
  "ex_alarms = (\<lambda>a. SYSTEMALARMS_ALARM_OK)"

fun ex_PARSE_FLIGHT_MODE :: "FlightStatusFlightModeOptions \<Rightarrow> FlightModeCategory" where
  "ex_PARSE_FLIGHT_MODE FLIGHTSTATUS_FLIGHTMODE_MANUAL = FLIGHTMODE_MANUAL"
| "ex_PARSE_FLIGHT_MODE FLIGHTSTATUS_FLIGHTMODE_STABILIZED1 = FLIGHTMODE_STABILIZED"
| "ex_PARSE_FLIGHT_MODE FLIGHTSTATUS_FLIGHTMODE_STABILIZED2 = FLIGHTMODE_STABILIZED"
| "ex_PARSE_FLIGHT_MODE FLIGHTSTATUS_FLIGHTMODE_STABILIZED3 = FLIGHTMODE_STABILIZED"
| "ex_PARSE_FLIGHT_MODE (FLIGHTSTATUS_FLIGHTMODE_other n) = (if n = 0 then FLIGHTMODE_TUNING else FLIGHTMODE_UNDEFINED)"
| "ex_PARSE_FLIGHT_MODE _ = FLIGHTMODE_GUIDANCE"

definition ex_platform :: platform where
  "ex_platform =
     \<lparr>portTICK_RATE_MS = 1,
      pios_rcvr_group_map = (\<lambda>g. if g = MANUALCONTROLSETTINGS_CHANNELGROUPS_PPM then 1 else 0),
      PIOS_RCVR_TIMEOUT = - 1, PIOS_RCVR_INVALID = - 2, PIOS_RCVR_NODRIVER = - 3,
      MANUALCONTROLSETTINGS_FLIGHTMODEPOSITION_NUMELEM = 6,
      PARSE_FLIGHT_MODE = ex_PARSE_FLIGHT_MODE,
      USE_INPUT_LPF = False,
      REVOLUTION = True\<rparr>"

definition ex_cmd :: ManualControlCommandData where
  "ex_cmd = \<lparr>Throttle = - 1, Roll = 0, Pitch = 0, Yaw = 0, Collective = 0,
             Channel = (\<lambda>n. 1500), Connected = True, FlightModeSwitchPosition = 0\<rparr>"

definition ex_settings :: ManualControlSettingsData where
  "ex_settings =
     \<lparr>ChannelGroups = (\<lambda>n. MANUALCONTROLSETTINGS_CHANNELGROUPS_PPM),
      ChannelNumber = (\<lambda>n. 1),
      ChannelMin = (\<lambda>n. 1000), ChannelNeutral = (\<lambda>n. 1500), ChannelMax = (\<lambda>n. 2000),
      ResponseTime = (\<lambda>n. 0), Deadband = 0,
      Arming = MANUALCONTROLSETTINGS_ARMING_ROLLLEFT,
      ArmingSequenceTime = 1000, DisarmingSequenceTime = 1000, ArmedTimeout = 30000,
      FailsafeBehavior = 1, FlightModeNumber = 3,
      FlightModePosition = [FLIGHTSTATUS_FLIGHTMODE_MANUAL, FLIGHTSTATUS_FLIGHTMODE_STABILIZED1,
        FLIGHTSTATUS_FLIGHTMODE_STABILIZED2, FLIGHTSTATUS_FLIGHTMODE_STABILIZED3,
        FLIGHTSTATUS_FLIGHTMODE_ALTITUDEHOLD, FLIGHTSTATUS_FLIGHTMODE_POSITIONHOLD]\<rparr>"

definition ex_environment :: environment where
  "ex_environment =
     \<lparr>ManualControlSettingsGet = ex_settings,
      PIOS_RCVR_Read = (\<lambda>rcvr_id channel. 1500),
      xTaskGetTickCount = 0,
      FlightTelemetryStats_connected = False,
      configuration_check = (\<lambda>alarms. alarms),
      AccessoryDesiredInstSet_ok = (\<lambda>i. True)\<rparr>"

definition ex_state :: module_state where
  "ex_state =
     \<lparr>armState = ARM_STATE_DISARMED, lastSysTime = 0, armedDisarmStart = 0, lastSysTimeLPF = 0,
      inputFiltered = (\<lambda>n. 0),
      activity_fsm = \<lparr>fsm_group = MANUALCONTROLSETTINGS_CHANNELGROUPS_PPM, fsm_prev = (\<lambda>k. 1500), fsm_sample_count = 0\<rparr>,
      lastFlightMode = FLIGHTSTATUS_FLIGHTMODE_MANUAL,
      cmd = ex_cmd,
      flightStatus = \<lparr>Armed = FLIGHTSTATUS_ARMED_DISARMED, FlightMode = FLIGHTSTATUS_FLIGHTMODE_MANUAL\<rparr>,
      flightMode = 0, disconnected_count = 0, connected_count = 0, lastActivityTime = 0,
      scaledChannel = (\<lambda>n. 0),
      obj_ManualControlCommand = ex_cmd,
      obj_ManualControlCommand_ReadOnly = False,
      obj_FlightStatus = \<lparr>Armed = FLIGHTSTATUS_ARMED_DISARMED, FlightMode = FLIGHTSTATUS_FLIGHTMODE_MANUAL\<rparr>,
      obj_SystemAlarms = ex_alarms,
      obj_ReceiverActivity = \<lparr>ActiveGroup = RECEIVERACTIVITY_ACTIVEGROUP_NONE, ActiveChannel = 255\<rparr>,
      obj_AccessoryDesired = (\<lambda>i. 0),
      dispatched = []\<rparr>"

definition ex_arm_input :: "float \<Rightarrow> 32 word \<Rightarrow> arm_input" where
  "ex_arm_input roll t = \<lparr>in_cmd = ex_cmd\<lparr>Roll := roll\<rparr>, in_armSwitch = 0, in_lastSysTime = t, in_alarms = ex_alarms\<rparr>"


section \<open>Input range check\<close>

lemma sint16_le: "sint (w :: 16 word) \<le> 32767"
  using sint_lt [of w] by simp

text \<open>
  Claim C10. \<open>validInputRange\<close> accepts a raw value exactly when it lies between the
  lesser bound minus 250 and the greater bound plus 250, both inclusive; the order of
  the two bounds does not matter; and a raw value above 32767 + 250, such as the
  16-bit image 65535 of a negative receiver error code, is rejected whatever the
  configured bounds are.
\<close>

theorem validInputRange_band:
  "(validInputRange mn mx v \<longleftrightarrow>
      min (sint mn) (sint mx) - 250 \<le> uint v \<and> uint v \<le> max (sint mn) (sint mx) + 250)
   \<and> validInputRange mn mx v = validInputRange mx mn v
   \<and> (33017 < uint v \<longrightarrow> \<not> validInputRange mn mx v)"
  using sint16_le [of mn] sint16_le [of mx]
  by (auto simp: validInputRange_def CONNECTION_OFFSET_def Let_def)

theorem validInputRange_band_witness:
  "validInputRange 1000 2000 750 \<and> validInputRange 2000 1000 2250
   \<and> \<not> validInputRange 1000 2000 749 \<and> 33017 < uint (65535 :: 16 word)
   \<and> \<not> validInputRange 1000 2000 65535"
  using validInputRange_band [of 1000 2000 750] validInputRange_band [of 2000 1000 2250]
    validInputRange_band [of 1000 2000 749] validInputRange_band [of 1000 2000 65535]
  by simp

section \<open>Flight mode switch position\<close>

lemma float_to_int16_bounds:
  "- 1 \<le> v \<Longrightarrow> v \<le> 1 \<Longrightarrow>
     - 256 \<le> float_to_int16 (v * 256) \<and> float_to_int16 (v * 256) \<le> 256"
  unfolding float_to_int16_def
  by (auto simp: le_floor_iff floor_le_iff ceiling_le_iff le_ceiling_iff)

lemma flightModeSwitchPos_refines:
  assumes N: "1 \<le> uint N" and v: "- 1 \<le> v" "v \<le> 1"
  shows "uint (flightModeSwitchPos N v) = decode_spec (uint N) v"
proof -
  define t where "t = float_to_int16 (v * 256)"
  define q where "q = ((t + 256) * uint N) div 512"
  have tb: "- 256 \<le> t" "t \<le> 256"
    using float_to_int16_bounds [OF v] by (simp_all add: t_def)
  have Nb: "uint N < 256"
    using uint_bounded [of N] by simp
  have q0: "0 \<le> q"
    unfolding q_def using tb N by (intro pos_imp_zdiv_nonneg_iff [THEN iffD2]) auto
  have "(t + 256) * uint N \<le> 512 * uint N"
    using tb N by (intro mult_right_mono) auto
  then have "((t + 256) * uint N) div 512 \<le> (512 * uint N) div 512"
    by (rule zdiv_mono1) simp
  then have qN: "q \<le> uint N"
    unfolding q_def by simp
  have qw: "uint (word_of_int q :: 8 word) = q"
    using q0 qN Nb by (simp add: uint_word_of_int take_bit_int_eq_self)
  have N1: "uint (N - 1) = uint N - 1"
    using N by (simp add: uint_sub_if' word_le_def)
  show ?thesis
    using q0 qN qw N1 N
    by (auto simp: flightModeSwitchPos_def decode_spec_def Let_def drop_bit_eq_div
        t_def [symmetric] q_def [symmetric] word_le_def)
qed

lemma flightModeSwitchPos_low: "1 \<le> uint N \<Longrightarrow> flightModeSwitchPos N (- 1) = 0"
  by (simp add: flightModeSwitchPos_def float_to_int16_def Let_def word_le_def)

lemma flightModeSwitchPos_high: "1 \<le> uint N \<Longrightarrow> flightModeSwitchPos N 1 = N - 1"
  by (simp add: flightModeSwitchPos_def float_to_int16_def Let_def drop_bit_eq_div)

lemma flightModeSwitchPos_three:
  "flightModeSwitchPos 3 (- 1) = 0 \<and> flightModeSwitchPos 3 0 = 1 \<and> flightModeSwitchPos 3 1 = 2"
  by (simp add: flightModeSwitchPos_def float_to_int16_def drop_bit_eq_div word_le_def)

text \<open>
  Claim C4. For a mode count \<open>N\<close> of at least 1 and a switch value in [-1, 1] the position
  computed by \<open>processFlightMode\<close> is the specification's
  \<open>clamp(((int(value*256) + 256) * N) >> 9, 0, N-1)\<close>; with three modes the values
  -1, 0 and 1 give the positions 0, 1 and 2; and for every such \<open>N\<close> the value -1 gives
  position 0 and the value 1 gives position \<open>N - 1\<close>.
\<close>

theorem flightModeSwitchPos_decode:
  "(1 \<le> uint N \<and> - 1 \<le> v \<and> v \<le> 1 \<longrightarrow>
      uint (flightModeSwitchPos N v) = decode_spec (uint N) v)
   \<and> flightModeSwitchPos 3 (- 1) = 0 \<and> flightModeSwitchPos 3 0 = 1
   \<and> flightModeSwitchPos 3 1 = 2
   \<and> (1 \<le> uint N \<longrightarrow> flightModeSwitchPos N (- 1) = 0 \<and> flightModeSwitchPos N 1 = N - 1)"
  using flightModeSwitchPos_refines [of N v] flightModeSwitchPos_low [of N]
    flightModeSwitchPos_high [of N] flightModeSwitchPos_three
  by blast

theorem flightModeSwitchPos_decode_witness:
  "1 \<le> uint (6 :: 8 word) \<and> - 1 \<le> (1 / 3 :: rat) \<and> (1 / 3 :: rat) \<le> 1
   \<and> uint (flightModeSwitchPos 6 (1 / 3)) = decode_spec 6 (1 / 3)
   \<and> flightModeSwitchPos 6 (- 1) = 0 \<and> flightModeSwitchPos 6 1 = 5"
  using flightModeSwitchPos_decode [of 6 "1 / 3"]
  by simp

section \<open>Channel scaling\<close>

lemma rat_quotient_opposite:
  assumes "b \<noteq> c"
  shows "(of_int (b - c) :: rat) / of_int (c - b) = - 1"
proof -
  from assms have nz: "(of_int (c - b) :: rat) \<noteq> 0" by simp
  have e: "(of_int (b - c) :: rat) = - of_int (c - b)" by simp
  have "(of_int (c - b) :: rat) / of_int (c - b) = 1" using nz by (rule divide_self)
  then show ?thesis unfolding e divide_minus_left by (rule arg_cong)
qed

lemma scaleChannel_at_neutral: "scaleChannel neutral mx mn neutral = 0"
  by (simp add: scaleChannel_def)

lemma scaleChannel_bounded:
  "- 1 \<le> scaleChannel v mx mn neutral \<and> scaleChannel v mx mn neutral \<le> 1"
  by (simp add: scaleChannel_def Let_def)

lemma scaleChannel_at_max:
  "scaleChannel mx mx mn n = 1 \<longleftrightarrow>
     (sint mn < sint mx \<and> sint n < sint mx) \<or> (sint mx < sint mn \<and> sint mx < sint n)"
proof -
  define a b c where "a = sint mx" and "b = sint mn" and "c = sint n"
  have ac: "(mx \<noteq> n) = (a \<noteq> c)" by (simp add: a_def c_def word_eq_iff_signed [of mx n])
  have bc: "(mn \<noteq> n) = (b \<noteq> c)" by (simp add: b_def c_def word_eq_iff_signed [of mn n])
  have unf: "scaleChannel mx mx mn n =
      (let valueScaled =
        (if (a > b \<and> a \<ge> c) \<or> (b > a \<and> a \<le> c)
         then (if a \<noteq> c then of_int (a - c) / of_int (a - c) else 0)
         else (if b \<noteq> c then of_int (a - c) / of_int (c - b) else 0))
      in if valueScaled > 1 then 1 else if valueScaled < - 1 then - 1 else valueScaled)"
    unfolding scaleChannel_def ac bc a_def b_def c_def by (rule refl)
  have "(scaleChannel mx mx mn n = 1) = ((b < a \<and> c < a) \<or> (a < b \<and> a < c))"
  proof (cases "(a > b \<and> a \<ge> c) \<or> (b > a \<and> a \<le> c)")
    case True
    then show ?thesis
      by (cases "a = c") (auto simp: unf Let_def)
  next
    case False
    have le0: "b \<noteq> c \<Longrightarrow> (of_int (a - c) :: rat) / of_int (c - b) \<le> 0"
      using False by (cases "a = b") (auto simp: divide_le_0_iff)
    show ?thesis
    proof (cases "b = c")
      case True
      with False show ?thesis by (auto simp: unf Let_def)
    next
      case nbc: False
      from le0 [OF nbc] False nbc show ?thesis
        by (auto simp: unf Let_def)
    qed
  qed
  then show ?thesis by (simp only: a_def b_def c_def)
qed

lemma scaleChannel_at_min:
  "scaleChannel mn mx mn n = - 1 \<longleftrightarrow>
     mn \<noteq> n \<and> \<not> ((sint mx > sint mn \<and> sint mn \<ge> sint n) \<or> (sint mn > sint mx \<and> sint mn \<le> sint n))"
proof -
  define a b c where "a = sint mx" and "b = sint mn" and "c = sint n"
  have ac: "(mx \<noteq> n) = (a \<noteq> c)" by (simp add: a_def c_def word_eq_iff_signed [of mx n])
  have bc: "(mn \<noteq> n) = (b \<noteq> c)" by (simp add: b_def c_def word_eq_iff_signed [of mn n])
  have unf: "scaleChannel mn mx mn n =
      (let valueScaled =
        (if (a > b \<and> b \<ge> c) \<or> (b > a \<and> b \<le> c)
         then (if a \<noteq> c then of_int (b - c) / of_int (a - c) else 0)
         else (if b \<noteq> c then of_int (b - c) / of_int (c - b) else 0))
      in if valueScaled > 1 then 1 else if valueScaled < - 1 then - 1 else valueScaled)"
    unfolding scaleChannel_def ac bc a_def b_def c_def by (rule refl)
  have "(scaleChannel mn mx mn n = - 1) =
      (b \<noteq> c \<and> \<not> ((a > b \<and> b \<ge> c) \<or> (b > a \<and> b \<le> c)))"
  proof (cases "(a > b \<and> b \<ge> c) \<or> (b > a \<and> b \<le> c)")
    case True
    have ge0: "a \<noteq> c \<Longrightarrow> 0 \<le> (of_int (b - c) :: rat) / of_int (a - c)"
      using True by (auto simp: zero_le_divide_iff)
    show ?thesis
    proof (cases "a = c")
      case eq: True
      with True show ?thesis by (auto simp: unf Let_def)
    next
      case nac: False
      from ge0 [OF nac] True nac show ?thesis
        by (auto simp: unf Let_def)
    qed
  next
    case False
    then show ?thesis
      using rat_quotient_opposite [of b c]
      by (cases "b = c") (auto simp: unf Let_def simp del: of_int_diff)
  qed
  then show ?thesis by (simp only: a_def b_def c_def bc)
qed

lemma scaleChannel_guard_max:
  "mx = n \<Longrightarrow> (sint mx > sint mn \<and> sint v \<ge> sint n) \<or> (sint mn > sint mx \<and> sint v \<le> sint n)
     \<Longrightarrow> scaleChannel v mx mn n = 0"
  by (simp add: scaleChannel_def)

lemma scaleChannel_guard_min:
  "mn = n \<Longrightarrow> \<not> ((sint mx > sint mn \<and> sint v \<ge> sint n) \<or> (sint mn > sint mx \<and> sint v \<le> sint n))
     \<Longrightarrow> scaleChannel v mx mn n = 0"
  by (auto simp: scaleChannel_def)

text \<open>
  Claim C3, as stated, fails: with \<open>max = neutral\<close> the guard makes the sample \<open>max\<close>
  scale to 0 and not to 1, and with \<open>min = neutral\<close> the sample \<open>min\<close> scales to 0 and not
  to -1.
\<close>

theorem scaleChannel_extremes_counterexample:
  "scaleChannel 1500 1500 1000 1500 \<noteq> 1 \<and> scaleChannel 1000 2000 1000 1000 \<noteq> - 1"
  by (simp add: scaleChannel_def)

text \<open>
  Claim C3, amended. For every configuration and every sample: the neutral sample scales
  to 0; the result lies in [-1, 1]; the sample \<open>max\<close> scales to 1 exactly when \<open>max\<close> lies
  strictly beyond both \<open>min\<close> and \<open>neutral\<close> on the same side; the sample \<open>min\<close> scales to -1
  exactly when \<open>min\<close> differs from \<open>neutral\<close> and does not lie on the side of \<open>neutral\<close> that
  is scaled by \<open>max\<close>; and a side whose end point equals \<open>neutral\<close> yields 0 instead of
  dividing by zero.
\<close>

theorem scaleChannel_properties:
  "scaleChannel n mx mn n = 0
   \<and> - 1 \<le> scaleChannel v mx mn n \<and> scaleChannel v mx mn n \<le> 1
   \<and> (scaleChannel mx mx mn n = 1 \<longleftrightarrow>
        (sint mn < sint mx \<and> sint n < sint mx) \<or> (sint mx < sint mn \<and> sint mx < sint n))
   \<and> (scaleChannel mn mx mn n = - 1 \<longleftrightarrow>
        mn \<noteq> n \<and> \<not> ((sint mx > sint mn \<and> sint mn \<ge> sint n)
                      \<or> (sint mn > sint mx \<and> sint mn \<le> sint n)))
   \<and> (mx = n \<and> ((sint mx > sint mn \<and> sint v \<ge> sint n) \<or> (sint mn > sint mx \<and> sint v \<le> sint n))
        \<longrightarrow> scaleChannel v mx mn n = 0)
   \<and> (mn = n \<and> \<not> ((sint mx > sint mn \<and> sint v \<ge> sint n) \<or> (sint mn > sint mx \<and> sint v \<le> sint n))
        \<longrightarrow> scaleChannel v mx mn n = 0)"
  using scaleChannel_at_neutral [of n mx mn] scaleChannel_bounded [of v mx mn n]
    scaleChannel_at_max [of mx mn n] scaleChannel_at_min [of mn mx n]
    scaleChannel_guard_max [of mx n mn v] scaleChannel_guard_min [of mn n mx v]
  by blast

theorem scaleChannel_properties_witness:
  "scaleChannel 1500 2000 1000 1500 = 0
   \<and> scaleChannel 2000 2000 1000 1500 = 1
   \<and> scaleChannel 1000 2000 1000 1500 = - 1
   \<and> scaleChannel 1000 1000 2000 1500 = 1
   \<and> scaleChannel 1600 1500 1000 1500 = 0
   \<and> scaleChannel 900 2000 1000 1000 = 0"
  using scaleChannel_properties [of 1500 2000 1000 1500]
    scaleChannel_properties [of 1500 1000 2000 1500]
    scaleChannel_properties [of 1500 1500 1000 1600]
    scaleChannel_properties [of 1000 2000 1000 900]
  by simp


section \<open>Arming state machine\<close>

lemma setArmed_eq: "setArmedIfChanged v s = s\<lparr>obj_FlightStatus := (obj_FlightStatus s)\<lparr>Armed := v\<rparr>\<rparr>"
  by (simp add: setArmedIfChanged_def)

lemma step_arming:
  assumes g: "gesture_configured settings"
    and st: "armState s = ARM_STATE_ARMING_MANUAL"
    and low: "low_throttle_unforced i"
  shows "processArm_step P E settings s i =
     (let s1 = s\<lparr>lastSysTime := in_lastSysTime i, obj_SystemAlarms := in_alarms i,
                obj_FlightStatus := (obj_FlightStatus s)\<lparr>Armed := FLIGHTSTATUS_ARMED_ARMING\<rparr>\<rparr>
      in if gesture_held settings i \<and> unat (timeDifferenceMs P (armedDisarmStart s) (in_lastSysTime i)) > unat (ArmingSequenceTime settings)
         then s1\<lparr>armState := ARM_STATE_ARMED\<rparr>
         else if \<not> gesture_held settings i then s1\<lparr>armState := ARM_STATE_DISARMED\<rparr> else s1)"
  using assms
  by (simp add: processArm_step_def processArm_def processArm_gesture_def Let_def forcedDisArm_def
      setArmed_eq gesture_held_def gesture_configured_def low_throttle_unforced_def)

lemma step_held:
  assumes "gesture_configured settings" "armState s = ARM_STATE_ARMING_MANUAL"
    "low_throttle_unforced i" "held_within P settings (armedDisarmStart s) i"
  shows "armState (processArm_step P E settings s i) = ARM_STATE_ARMING_MANUAL
       \<and> armedDisarmStart (processArm_step P E settings s i) = armedDisarmStart s"
  using assms(2,4) unfolding step_arming [OF assms(1,2,3)] held_within_def
  by (simp add: Let_def)

lemma step_released:
  assumes "gesture_configured settings" "armState s = ARM_STATE_ARMING_MANUAL"
    "low_throttle_unforced i" "\<not> gesture_held settings i"
  shows "armState (processArm_step P E settings s i) = ARM_STATE_DISARMED"
  using assms(4) unfolding step_arming [OF assms(1,2,3)]
  by (simp add: Let_def)

lemma run_held:
  assumes g: "gesture_configured settings"
  shows "armState s = ARM_STATE_ARMING_MANUAL \<Longrightarrow>
     \<forall>i \<in> set run. low_throttle_unforced i \<and> held_within P settings (armedDisarmStart s) i \<Longrightarrow>
     armState (processArm_run P E settings s run) = ARM_STATE_ARMING_MANUAL
     \<and> armedDisarmStart (processArm_run P E settings s run) = armedDisarmStart s"
proof (induction run arbitrary: s)
  case Nil
  then show ?case by (simp add: processArm_run_def)
next
  case (Cons i run)
  from Cons.prems have i: "low_throttle_unforced i" "held_within P settings (armedDisarmStart s) i"
    by simp_all
  note st = step_held [OF g Cons.prems(1) i, of E]
  have "\<forall>j \<in> set run. low_throttle_unforced j
      \<and> held_within P settings (armedDisarmStart (processArm_step P E settings s i)) j"
    using Cons.prems(2) st by simp
  from Cons.IH [OF conjunct1 [OF st] this] st
  show ?case by (simp add: processArm_run_def)
qed

lemma okToArm_snd:
  "snd (okToArm E s) = s\<lparr>obj_SystemAlarms := configuration_check E (obj_SystemAlarms s)\<rparr>"
  by (simp add: okToArm_def Let_def split: FlightStatusFlightModeOptions.splits)

lemma okToArm_fst:
  "fst (okToArm E s) =
     (okToArm_alarms SYSTEMALARMS_ALARM_ELEMS (configuration_check E (obj_SystemAlarms s))
      \<and> (FlightMode (obj_FlightStatus s) = FLIGHTSTATUS_FLIGHTMODE_MANUAL
         \<or> FlightMode (obj_FlightStatus s) = FLIGHTSTATUS_FLIGHTMODE_STABILIZED1
         \<or> FlightMode (obj_FlightStatus s) = FLIGHTSTATUS_FLIGHTMODE_STABILIZED2
         \<or> FlightMode (obj_FlightStatus s) = FLIGHTSTATUS_FLIGHTMODE_STABILIZED3))"
  by (simp add: okToArm_def Let_def split: FlightStatusFlightModeOptions.splits)

lemma step_armed:
  assumes "gesture_configured settings" "armState s = ARM_STATE_ARMING_MANUAL"
    "low_throttle_unforced i" "gesture_held settings i"
    "unat (timeDifferenceMs P (armedDisarmStart s) (in_lastSysTime i))
       > unat (ArmingSequenceTime settings)"
  shows "armState (processArm_step P E settings s i) = ARM_STATE_ARMED"
  using assms(4,5) unfolding step_arming [OF assms(1,2,3)]
  by (simp add: Let_def)

text \<open>
  The step that starts the arming sequence: from Disarmed, with low throttle, no forced
  disarm, the gesture at the arming position and the pre-arm check passed, the state
  becomes ArmingManual and the timer is set to the time of this step.
\<close>

lemma step_entry:
  assumes "gesture_configured settings" and "armState s = ARM_STATE_DISARMED"
    and "low_throttle_unforced i" and "gesture_held settings i" and "ok_to_arm_at E s i"
  shows "armState (processArm_step P E settings s i) = ARM_STATE_ARMING_MANUAL
       \<and> armedDisarmStart (processArm_step P E settings s i) = in_lastSysTime i"
proof -
  define s1 where "s1 = setArmedIfChanged FLIGHTSTATUS_ARMED_DISARMED
      (s\<lparr>lastSysTime := in_lastSysTime i, obj_SystemAlarms := in_alarms i\<rparr>)"
  have ok: "fst (okToArm E s1)"
    using assms(5) by (simp add: ok_to_arm_at_def okToArm_fst s1_def setArmed_eq)
  have t: "lastSysTime (snd (okToArm E s1)) = in_lastSysTime i"
    by (simp add: okToArm_snd s1_def setArmed_eq)
  have "processArm_step P E settings s i =
      (snd (okToArm E s1))\<lparr>armedDisarmStart := lastSysTime (snd (okToArm E s1)),
                            armState := ARM_STATE_ARMING_MANUAL\<rparr>"
    using assms(1,2,3,4) ok
    by (simp add: processArm_step_def processArm_def processArm_gesture_def Let_def
        forcedDisArm_def gesture_held_def gesture_configured_def low_throttle_unforced_def
        s1_def [symmetric] split_beta)
  then show ?thesis by (simp add: t)
qed

text \<open>
  Without the gesture, or with the pre-arm check failed, the Disarmed state is kept: the
  arming sequence and its timer start only with the step above.
\<close>

lemma step_no_entry:
  assumes "gesture_configured settings" and "armState s = ARM_STATE_DISARMED"
    and "low_throttle_unforced i" and "\<not> (gesture_held settings i \<and> ok_to_arm_at E s i)"
  shows "armState (processArm_step P E settings s i) = ARM_STATE_DISARMED"
proof -
  define s1 where "s1 = setArmedIfChanged FLIGHTSTATUS_ARMED_DISARMED
      (s\<lparr>lastSysTime := in_lastSysTime i, obj_SystemAlarms := in_alarms i\<rparr>)"
  have ok: "fst (okToArm E s1) = ok_to_arm_at E s i"
    by (simp add: ok_to_arm_at_def okToArm_fst s1_def setArmed_eq)
  have a1: "armState s1 = ARM_STATE_DISARMED"
    using assms(2) by (simp add: s1_def setArmed_eq)
  have a2: "armState (snd (okToArm E s1)) = ARM_STATE_DISARMED"
    using a1 by (simp add: okToArm_snd)
  have "processArm_step P E settings s i =
      (if gesture_held settings i
       then (if fst (okToArm E s1)
             then (snd (okToArm E s1))\<lparr>armedDisarmStart := lastSysTime (snd (okToArm E s1)),
                                         armState := ARM_STATE_ARMING_MANUAL\<rparr>
             else snd (okToArm E s1))
       else s1)"
    using assms(1,2,3)
    by (simp add: processArm_step_def processArm_def processArm_gesture_def Let_def
        forcedDisArm_def gesture_held_def gesture_configured_def low_throttle_unforced_def
        s1_def [symmetric] split_beta)
  then show ?thesis
    using assms(4) a1 a2 by (auto simp: ok)
qed

lemma processArm_run_Cons:
  "processArm_run P E settings s (i # run)
     = processArm_run P E settings (processArm_step P E settings s i) run"
  by (simp add: processArm_run_def)

text \<open>
  Claim C5, as stated for any run, fails on a run that begins in an ArmingManual state
  whose timer is older than the gesture. Such a state is reached from Disarmed: the
  gesture at time 20 starts the sequence, then a forced disarm at time 40, with the
  stick released, leaves the state machine in ArmingManual. The run proper, with low
  throttle and no forced disarm, consists of the first cycle of a new gesture at time
  60000, and it reaches Armed at once although the gesture has been held for no time.
\<close>

theorem arming_stale_timer_counterexample:
  "armState (processArm_run ex_platform ex_environment ex_settings ex_state
      [ex_arm_input (- 1) 20,
       (ex_arm_input 0 40)
         \<lparr>in_alarms := ex_alarms(SYSTEMALARMS_ALARM_GUIDANCE := SYSTEMALARMS_ALARM_CRITICAL)\<rparr>])
     = ARM_STATE_ARMING_MANUAL
   \<and> \<not> gesture_held ex_settings
        ((ex_arm_input 0 40)
           \<lparr>in_alarms := ex_alarms(SYSTEMALARMS_ALARM_GUIDANCE := SYSTEMALARMS_ALARM_CRITICAL)\<rparr>)
   \<and> gesture_configured ex_settings
   \<and> low_throttle_unforced (ex_arm_input (- 1) 60000)
   \<and> gesture_held ex_settings (ex_arm_input (- 1) 60000)
   \<and> armState (processArm_run ex_platform ex_environment ex_settings
        (processArm_run ex_platform ex_environment ex_settings ex_state
          [ex_arm_input (- 1) 20,
           (ex_arm_input 0 40)
             \<lparr>in_alarms := ex_alarms(SYSTEMALARMS_ALARM_GUIDANCE := SYSTEMALARMS_ALARM_CRITICAL)\<rparr>])
        [ex_arm_input (- 1) 60000])
     = ARM_STATE_ARMED"
proof -
  define f where "f = (ex_arm_input 0 40)
      \<lparr>in_alarms := ex_alarms(SYSTEMALARMS_ALARM_GUIDANCE := SYSTEMALARMS_ALARM_CRITICAL)\<rparr>"
  have g: "gesture_configured ex_settings"
    by (simp add: gesture_configured_def ex_settings_def)
  have l1: "low_throttle_unforced (ex_arm_input r t)" for r t
    by (simp add: low_throttle_unforced_def ex_arm_input_def ex_cmd_def ex_alarms_def)
  have h1: "gesture_held ex_settings (ex_arm_input (- 1) t)" for t
    by (simp add: gesture_held_def ex_arm_input_def ex_cmd_def ex_settings_def manualArm_def
        ARMED_THRESHOLD_def)
  have nh: "\<not> gesture_held ex_settings f"
    by (simp add: f_def gesture_held_def ex_arm_input_def ex_cmd_def ex_settings_def manualArm_def
        ARMED_THRESHOLD_def)
  have d: "armState ex_state = ARM_STATE_DISARMED"
    by (simp add: ex_state_def)
  have ok: "ok_to_arm_at ex_environment ex_state (ex_arm_input (- 1) 20)"
    by (simp add: ok_to_arm_at_def okToArm_fst ex_environment_def ex_state_def ex_arm_input_def
        ex_alarms_def SYSTEMALARMS_ALARM_ELEMS_def)
  define s1 where "s1 = processArm_step ex_platform ex_environment ex_settings ex_state
      (ex_arm_input (- 1) 20)"
  have e: "armState s1 = ARM_STATE_ARMING_MANUAL" "armedDisarmStart s1 = 20"
    using step_entry [OF g d l1 h1 ok, where P = ex_platform]
    by (simp_all add: s1_def ex_arm_input_def)
  define s2 where "s2 = processArm_step ex_platform ex_environment ex_settings s1 f"
  have fd: "forcedDisArm (s1\<lparr>lastSysTime := in_lastSysTime f, obj_SystemAlarms := in_alarms f\<rparr>)"
    by (simp add: forcedDisArm_def f_def)
  have s2: "armState s2 = ARM_STATE_ARMING_MANUAL" "armedDisarmStart s2 = 20"
    using e fd by (simp_all add: s2_def processArm_step_def processArm_def setArmed_eq)
  have late: "unat (timeDifferenceMs ex_platform (armedDisarmStart s2)
                 (in_lastSysTime (ex_arm_input (- 1) 60000)))
        > unat (ArmingSequenceTime ex_settings)"
    by (simp add: s2 timeDifferenceMs_def ex_platform_def ex_arm_input_def ex_settings_def)
  have a: "armState (processArm_step ex_platform ex_environment ex_settings s2
        (ex_arm_input (- 1) 60000)) = ARM_STATE_ARMED"
    by (rule step_armed [OF g s2(1) l1 h1 late])
  have r2: "processArm_run ex_platform ex_environment ex_settings ex_state
      [ex_arm_input (- 1) 20, f] = s2"
    by (simp add: processArm_run_def s1_def s2_def)
  have r3: "processArm_run ex_platform ex_environment ex_settings s2 [ex_arm_input (- 1) 60000]
      = processArm_step ex_platform ex_environment ex_settings s2 (ex_arm_input (- 1) 60000)"
    by (simp add: processArm_run_def)
  show ?thesis
    unfolding f_def [symmetric] r2 r3 using s2(1) nh g l1 h1 a by blast
qed

text \<open>
  Claim C5, amended. Take a run of \<open>processArm\<close> steps with a gesture configuration, low
  throttle and no forced disarm that begins in Disarmed with the step that starts the
  arming sequence (gesture seen, pre-arm check passed). That step enters ArmingManual
  and sets the timer to its own time. While in the following steps the gesture stays
  held and the time since that first step has not exceeded \<open>ArmingSequenceTime\<close>, the
  state is ArmingManual after every prefix of the run, so Armed is never reached. If
  the next step finds the gesture released it returns the state to Disarmed; if it
  finds the gesture held and the time since the first step beyond
  \<open>ArmingSequenceTime\<close>, it reaches Armed.
\<close>

theorem arming_sequence_from_disarmed:
  assumes "gesture_configured settings"
    and "armState s = ARM_STATE_DISARMED"
    and "low_throttle_unforced i0" and "gesture_held settings i0" and "ok_to_arm_at E s i0"
    and "\<forall>i \<in> set run. low_throttle_unforced i \<and> held_within P settings (in_lastSysTime i0) i"
  shows "armedDisarmStart (processArm_run P E settings s [i0]) = in_lastSysTime i0
     \<and> (\<forall>n. armState (processArm_run P E settings s (i0 # take n run)) = ARM_STATE_ARMING_MANUAL)
     \<and> armState (processArm_run P E settings s (i0 # run)) \<noteq> ARM_STATE_ARMED
     \<and> (low_throttle_unforced j \<and> \<not> gesture_held settings j \<longrightarrow>
          armState (processArm_step P E settings (processArm_run P E settings s (i0 # run)) j)
            = ARM_STATE_DISARMED)
     \<and> (low_throttle_unforced k \<and> gesture_held settings k
          \<and> unat (timeDifferenceMs P (in_lastSysTime i0) (in_lastSysTime k))
              > unat (ArmingSequenceTime settings) \<longrightarrow>
          armState (processArm_step P E settings (processArm_run P E settings s (i0 # run)) k)
            = ARM_STATE_ARMED)"
proof -
  define s1 where "s1 = processArm_step P E settings s i0"
  have e: "armState s1 = ARM_STATE_ARMING_MANUAL" "armedDisarmStart s1 = in_lastSysTime i0"
    using step_entry [OF assms(1-5), where P = P] by (simp_all add: s1_def)
  have rc: "processArm_run P E settings s (i0 # xs) = processArm_run P E settings s1 xs" for xs
    by (simp add: processArm_run_Cons s1_def)
  have hyp: "\<forall>i \<in> set xs. low_throttle_unforced i \<and> held_within P settings (armedDisarmStart s1) i"
    if "set xs \<subseteq> set run" for xs
    using that assms(6) e(2) by auto
  have pre: "armState (processArm_run P E settings s1 (take n run)) = ARM_STATE_ARMING_MANUAL" for n
    using run_held [OF assms(1) e(1) hyp [of "take n run"], of E] by (simp add: set_take_subset)
  have fin: "armState (processArm_run P E settings s1 run) = ARM_STATE_ARMING_MANUAL"
    "armedDisarmStart (processArm_run P E settings s1 run) = in_lastSysTime i0"
    using run_held [OF assms(1) e(1) hyp [of run], of E] e(2) by simp_all
  have rel: "low_throttle_unforced j \<Longrightarrow> \<not> gesture_held settings j \<Longrightarrow>
      armState (processArm_step P E settings (processArm_run P E settings s1 run) j)
        = ARM_STATE_DISARMED"
    by (rule step_released [OF assms(1) fin(1)])
  have arm: "low_throttle_unforced k \<Longrightarrow> gesture_held settings k \<Longrightarrow>
      unat (timeDifferenceMs P (in_lastSysTime i0) (in_lastSysTime k))
        > unat (ArmingSequenceTime settings) \<Longrightarrow>
      armState (processArm_step P E settings (processArm_run P E settings s1 run) k)
        = ARM_STATE_ARMED"
    using step_armed [OF assms(1) fin(1), of k P E] fin(2) by simp
  have rn: "processArm_run P E settings s1 [] = s1"
    by (simp add: processArm_run_def)
  show ?thesis
    unfolding rc rn using e(2) pre fin(1) rel arm by simp
qed

theorem arming_sequence_from_disarmed_witness:
  "gesture_configured ex_settings
   \<and> armState ex_state = ARM_STATE_DISARMED
   \<and> low_throttle_unforced (ex_arm_input (- 1) 20)
   \<and> gesture_held ex_settings (ex_arm_input (- 1) 20)
   \<and> ok_to_arm_at ex_environment ex_state (ex_arm_input (- 1) 20)
   \<and> low_throttle_unforced (ex_arm_input (- 1) 40)
   \<and> held_within ex_platform ex_settings (in_lastSysTime (ex_arm_input (- 1) 20))
        (ex_arm_input (- 1) 40)
   \<and> low_throttle_unforced (ex_arm_input (- 1) 1020)
   \<and> held_within ex_platform ex_settings (in_lastSysTime (ex_arm_input (- 1) 20))
        (ex_arm_input (- 1) 1020)
   \<and> armState (processArm_run ex_platform ex_environment ex_settings ex_state
        [ex_arm_input (- 1) 20, ex_arm_input (- 1) 40, ex_arm_input (- 1) 1020])
       = ARM_STATE_ARMING_MANUAL
   \<and> low_throttle_unforced (ex_arm_input 0 1040)
   \<and> \<not> gesture_held ex_settings (ex_arm_input 0 1040)
   \<and> armState (processArm_step ex_platform ex_environment ex_settings
        (processArm_run ex_platform ex_environment ex_settings ex_state
          [ex_arm_input (- 1) 20, ex_arm_input (- 1) 40, ex_arm_input (- 1) 1020])
        (ex_arm_input 0 1040)) = ARM_STATE_DISARMED
   \<and> armState (processArm_step ex_platform ex_environment ex_settings
        (processArm_run ex_platform ex_environment ex_settings ex_state
          [ex_arm_input (- 1) 20, ex_arm_input (- 1) 40, ex_arm_input (- 1) 1020])
        (ex_arm_input (- 1) 1040)) = ARM_STATE_ARMED"
proof -
  have g: "gesture_configured ex_settings"
    by (simp add: gesture_configured_def ex_settings_def)
  have d: "armState ex_state = ARM_STATE_DISARMED"
    by (simp add: ex_state_def)
  have l: "low_throttle_unforced (ex_arm_input r t)" for r t
    by (simp add: low_throttle_unforced_def ex_arm_input_def ex_cmd_def ex_alarms_def)
  have h: "gesture_held ex_settings (ex_arm_input (- 1) t)" for t
    by (simp add: gesture_held_def ex_arm_input_def ex_cmd_def ex_settings_def manualArm_def
        ARMED_THRESHOLD_def)
  have nh: "\<not> gesture_held ex_settings (ex_arm_input 0 t)" for t
    by (simp add: gesture_held_def ex_arm_input_def ex_cmd_def ex_settings_def manualArm_def
        ARMED_THRESHOLD_def)
  have ok: "ok_to_arm_at ex_environment ex_state (ex_arm_input (- 1) 20)"
    by (simp add: ok_to_arm_at_def okToArm_fst ex_environment_def ex_state_def ex_arm_input_def
        ex_alarms_def SYSTEMALARMS_ALARM_ELEMS_def)
  have w1: "held_within ex_platform ex_settings (in_lastSysTime (ex_arm_input (- 1) 20))
        (ex_arm_input (- 1) 40)"
    and w2: "held_within ex_platform ex_settings (in_lastSysTime (ex_arm_input (- 1) 20))
        (ex_arm_input (- 1) 1020)"
    using h [of 40] h [of 1020]
    by (simp_all add: held_within_def timeDifferenceMs_def ex_platform_def ex_arm_input_def
        ex_settings_def)
  have late: "unat (timeDifferenceMs ex_platform (in_lastSysTime (ex_arm_input (- 1) 20))
                 (in_lastSysTime (ex_arm_input (- 1) 1040)))
        > unat (ArmingSequenceTime ex_settings)"
    by (simp add: timeDifferenceMs_def ex_platform_def ex_arm_input_def ex_settings_def)
  have run: "\<forall>i \<in> set [ex_arm_input (- 1) 40, ex_arm_input (- 1) 1020].
      low_throttle_unforced i
      \<and> held_within ex_platform ex_settings (in_lastSysTime (ex_arm_input (- 1) 20)) i"
    using l w1 w2 by simp
  have t: "take 2 [ex_arm_input (- 1) 40, ex_arm_input (- 1) 1020]
      = [ex_arm_input (- 1) 40, ex_arm_input (- 1) 1020]"
    by simp
  note th = arming_sequence_from_disarmed [where E = ex_environment and P = ex_platform
      and j = "ex_arm_input 0 1040" and k = "ex_arm_input (- 1) 1040",
      OF g d l h ok run]
  from th have "armState (processArm_run ex_platform ex_environment ex_settings ex_state
        (ex_arm_input (- 1) 20 # take 2 [ex_arm_input (- 1) 40, ex_arm_input (- 1) 1020]))
       = ARM_STATE_ARMING_MANUAL"
    by blast
  then have a: "armState (processArm_run ex_platform ex_environment ex_settings ex_state
        [ex_arm_input (- 1) 20, ex_arm_input (- 1) 40, ex_arm_input (- 1) 1020])
       = ARM_STATE_ARMING_MANUAL"
    unfolding t .
  from th l nh have b: "armState (processArm_step ex_platform ex_environment ex_settings
        (processArm_run ex_platform ex_environment ex_settings ex_state
          [ex_arm_input (- 1) 20, ex_arm_input (- 1) 40, ex_arm_input (- 1) 1020])
        (ex_arm_input 0 1040)) = ARM_STATE_DISARMED"
    by blast
  from th l h late have c: "armState (processArm_step ex_platform ex_environment ex_settings
        (processArm_run ex_platform ex_environment ex_settings ex_state
          [ex_arm_input (- 1) 20, ex_arm_input (- 1) 40, ex_arm_input (- 1) 1020])
        (ex_arm_input (- 1) 1040)) = ARM_STATE_ARMED"
    by blast
  show ?thesis
    using g d l h ok w1 w2 a nh b c by blast
qed

text \<open>
  Claim C1, as stated, fails: a forced disarm publishes Disarmed but leaves the module's
  own state variable where it was, here at Armed.
\<close>

theorem forced_disarm_armState_counterexample:
  "forcedDisArm (ex_state\<lparr>armState := ARM_STATE_ARMED,
       obj_SystemAlarms := ex_alarms(SYSTEMALARMS_ALARM_GUIDANCE := SYSTEMALARMS_ALARM_CRITICAL)\<rparr>)
   \<and> armState (processArm ex_platform ex_environment ex_cmd ex_settings 0
       (ex_state\<lparr>armState := ARM_STATE_ARMED,
          obj_SystemAlarms := ex_alarms(SYSTEMALARMS_ALARM_GUIDANCE := SYSTEMALARMS_ALARM_CRITICAL)\<rparr>))
     \<noteq> ARM_STATE_DISARMED"
  by (simp add: forcedDisArm_def processArm_def setArmedIfChanged_def ex_state_def)

text \<open>
  Claim C1, amended. For every arming state, command, switch value and arming
  configuration, when the guidance alarm is critical \<open>processArm\<close> publishes the armed
  status Disarmed on that same call and does nothing else: the gesture and timer logic
  is bypassed, and the module's arming state and timer are left as they were.
\<close>

theorem processArm_forced_disarm:
  assumes "forcedDisArm s"
  shows "processArm P E c settings armSwitch s =
           s\<lparr>obj_FlightStatus := (obj_FlightStatus s)\<lparr>Armed := FLIGHTSTATUS_ARMED_DISARMED\<rparr>\<rparr>
         \<and> Armed (obj_FlightStatus (processArm P E c settings armSwitch s))
             = FLIGHTSTATUS_ARMED_DISARMED
         \<and> armState (processArm P E c settings armSwitch s) = armState s
         \<and> armedDisarmStart (processArm P E c settings armSwitch s) = armedDisarmStart s"
proof -
  have "processArm P E c settings armSwitch s =
      s\<lparr>obj_FlightStatus := (obj_FlightStatus s)\<lparr>Armed := FLIGHTSTATUS_ARMED_DISARMED\<rparr>\<rparr>"
    using assms by (simp add: processArm_def setArmed_eq Let_def)
  then show ?thesis by simp
qed

theorem processArm_forced_disarm_witness:
  "forcedDisArm (ex_state\<lparr>armState := ARM_STATE_ARMING_MANUAL,
       obj_FlightStatus := (obj_FlightStatus ex_state)\<lparr>Armed := FLIGHTSTATUS_ARMED_ARMING\<rparr>,
       obj_SystemAlarms := ex_alarms(SYSTEMALARMS_ALARM_GUIDANCE := SYSTEMALARMS_ALARM_CRITICAL)\<rparr>)
   \<and> Armed (obj_FlightStatus (processArm ex_platform ex_environment ex_cmd ex_settings 0
       (ex_state\<lparr>armState := ARM_STATE_ARMING_MANUAL,
          obj_FlightStatus := (obj_FlightStatus ex_state)\<lparr>Armed := FLIGHTSTATUS_ARMED_ARMING\<rparr>,
          obj_SystemAlarms := ex_alarms(SYSTEMALARMS_ALARM_GUIDANCE := SYSTEMALARMS_ALARM_CRITICAL)\<rparr>)))
     = FLIGHTSTATUS_ARMED_DISARMED"
proof -
  have f: "forcedDisArm (ex_state\<lparr>armState := ARM_STATE_ARMING_MANUAL,
       obj_FlightStatus := (obj_FlightStatus ex_state)\<lparr>Armed := FLIGHTSTATUS_ARMED_ARMING\<rparr>,
       obj_SystemAlarms := ex_alarms(SYSTEMALARMS_ALARM_GUIDANCE := SYSTEMALARMS_ALARM_CRITICAL)\<rparr>)"
    by (simp add: forcedDisArm_def)
  from processArm_forced_disarm [OF f] f show ?thesis by blast
qed

text \<open>
  Claim C6. For every \<open>processArm\<close> step with no forced disarm, a connected command, a
  stick-gesture arming configuration and throttle not low: from DisarmingTimeout or
  DisarmingManual the state becomes Armed and from ArmingManual it becomes Disarmed.
  Nothing else of the module state changes, whatever the stick positions and the timer
  are.
\<close>

theorem processArm_throttle_raised:
  assumes "\<not> forcedDisArm s" and "Connected c" and "stick_gesture (Arming settings)"
    and "\<not> Throttle c < 0"
  shows "(armState s = ARM_STATE_DISARMING_TIMEOUT \<or> armState s = ARM_STATE_DISARMING_MANUAL
            \<longrightarrow> processArm P E c settings armSwitch s = s\<lparr>armState := ARM_STATE_ARMED\<rparr>)
         \<and> (armState s = ARM_STATE_ARMING_MANUAL
            \<longrightarrow> processArm P E c settings armSwitch s = s\<lparr>armState := ARM_STATE_DISARMED\<rparr>)"
  using assms
  by (auto simp: processArm_def Let_def stick_gesture_def arming_is_accessory_def)

theorem processArm_throttle_raised_witness:
  "\<not> forcedDisArm (ex_state\<lparr>armState := ARM_STATE_DISARMING_TIMEOUT\<rparr>)
   \<and> Connected (ex_cmd\<lparr>Throttle := 1 / 4\<rparr>) \<and> stick_gesture (Arming ex_settings)
   \<and> \<not> Throttle (ex_cmd\<lparr>Throttle := 1 / 4\<rparr>) < 0
   \<and> armState (processArm ex_platform ex_environment (ex_cmd\<lparr>Throttle := 1 / 4\<rparr>) ex_settings 0
        (ex_state\<lparr>armState := ARM_STATE_DISARMING_TIMEOUT\<rparr>)) = ARM_STATE_ARMED
   \<and> armState (processArm ex_platform ex_environment (ex_cmd\<lparr>Throttle := 1 / 4\<rparr>) ex_settings 0
        (ex_state\<lparr>armState := ARM_STATE_ARMING_MANUAL\<rparr>)) = ARM_STATE_DISARMED"
proof -
  have a: "\<not> forcedDisArm (ex_state\<lparr>armState := st\<rparr>)" for st
    by (simp add: forcedDisArm_def ex_state_def ex_alarms_def)
  have b: "Connected (ex_cmd\<lparr>Throttle := 1 / 4\<rparr>)"
    by (simp add: ex_cmd_def)
  have c: "stick_gesture (Arming ex_settings)"
    by (simp add: stick_gesture_def ex_settings_def)
  have d: "\<not> Throttle (ex_cmd\<lparr>Throttle := 1 / 4\<rparr>) < 0"
    by simp
  from processArm_throttle_raised [OF a b c d, of ARM_STATE_DISARMING_TIMEOUT ex_platform ex_environment 0]
    processArm_throttle_raised [OF a b c d, of ARM_STATE_ARMING_MANUAL ex_platform ex_environment 0]
    a b c d
  show ?thesis by simp
qed

section \<open>Receiver activity monitor: properties\<close>

lemma sample_fold:
  "updateRcvrActivitySample E rid smp n k = (if k < n then PIOS_RCVR_Read E rid (Suc k) else smp k)"
proof (induction n arbitrary: k)
  case 0
  then show ?case by (simp add: updateRcvrActivitySample_def)
next
  case (Suc n)
  have "[1 ..< Suc (Suc n)] = [1 ..< Suc n] @ [Suc n]" by simp
  then have "updateRcvrActivitySample E rid smp (Suc n)
      = (updateRcvrActivitySample E rid smp n)(n := PIOS_RCVR_Read E rid (Suc n))"
    unfolding updateRcvrActivitySample_def by (simp del: upt_Suc)
  then show ?case using Suc.IH by (auto simp: less_Suc_eq)
qed

lemma delta_unat:
  "unat (if (cu :: 16 word) > pr then cu - pr else pr - cu)
     = (if unat cu > unat pr then unat cu - unat pr else unat pr - unat cu)"
proof (cases "cu > pr")
  case True
  then have "pr \<le> cu" by simp
  then have "unat (cu - pr) = unat cu - unat pr" by (rule unat_sub)
  with True show ?thesis by (simp add: word_less_nat_alt)
next
  case False
  then have le: "cu \<le> pr" by simp
  then have "unat (pr - cu) = unat pr - unat cu" by (rule unat_sub)
  with False show ?thesis by (simp add: word_less_nat_alt)
qed

lemma nat_delta_exceeds:
  "((if (a :: nat) > b then a - b else b - a) > 10) = (\<bar>int a - int b\<bar> > 10)"
  by auto

lemma delta_exceeds:
  "(unat (if (cu :: 16 word) > pr then cu - pr else pr - cu) > 10)
     = (\<bar>uint cu - uint pr\<bar> > 10)"
  unfolding delta_unat uint_nat by (rule nat_delta_exceeds)

lemma compareChannel_Inr:
  "compareChannel E rid ch (Inr (u, s)) =
     (if channel_active E rid (activity_fsm s) ch
      then (case activeGroupOf (fsm_group (activity_fsm s)) of
              None \<Rightarrow> Inl ASSERT_FAILED
            | Some grp \<Rightarrow>
                Inr (True, s\<lparr>obj_ReceiverActivity :=
                     (obj_ReceiverActivity s)\<lparr>ActiveGroup := grp, ActiveChannel := of_nat ch\<rparr>\<rparr>))
      else Inr (u, s))"
  unfolding compareChannel_def channel_active_def delta_exceeds [symmetric]
    RCVR_ACTIVITY_MONITOR_MIN_RANGE_def Let_def
  by simp

lemma compare_fold:
  assumes g: "activeGroupOf (fsm_group (activity_fsm s)) = Some grp"
  shows "\<exists>ra. fold (compareChannel E rid) chs (Inr (u, s\<lparr>obj_ReceiverActivity := ra0\<rparr>))
     = Inr (u \<or> list_ex (channel_active E rid (activity_fsm s)) chs, s\<lparr>obj_ReceiverActivity := ra\<rparr>)"
proof (induction chs arbitrary: u ra0)
  case Nil
  then show ?case by auto
next
  case (Cons ch chs)
  show ?case
  proof (cases "channel_active E rid (activity_fsm s) ch")
    case True
    have "compareChannel E rid ch (Inr (u, s\<lparr>obj_ReceiverActivity := ra0\<rparr>))
        = Inr (True, s\<lparr>obj_ReceiverActivity := ra0\<lparr>ActiveGroup := grp, ActiveChannel := of_nat ch\<rparr>\<rparr>)"
      using True g by (simp add: compareChannel_Inr)
    then show ?thesis
      using Cons.IH [of True "ra0\<lparr>ActiveGroup := grp, ActiveChannel := of_nat ch\<rparr>"] True
      by simp
  next
    case False
    have "compareChannel E rid ch (Inr (u, s\<lparr>obj_ReceiverActivity := ra0\<rparr>))
        = Inr (u, s\<lparr>obj_ReceiverActivity := ra0\<rparr>)"
      using False by (simp add: compareChannel_Inr)
    then show ?thesis
      using Cons.IH [of u ra0] False by simp
  qed
qed

lemma compare_result:
  assumes g: "activeGroupOf (fsm_group (activity_fsm s)) = Some grp"
  shows "\<exists>ra. updateRcvrActivityCompare E rid s
     = Inr (activity_detected E rid (activity_fsm s), s\<lparr>obj_ReceiverActivity := ra\<rparr>)"
  using compare_fold [OF g, of E rid "[1 ..< Suc RCVR_ACTIVITY_MONITOR_CHANNELS_PER_GROUP]" False "obj_ReceiverActivity s"]
  by (simp add: updateRcvrActivityCompare_def activity_detected_def)

lemma activeGroupOf_Some:
  "g < MANUALCONTROLSETTINGS_CHANNELGROUPS_NONE \<Longrightarrow> \<exists>grp. activeGroupOf g = Some grp"
  unfolding activeGroupOf_def MANUALCONTROLSETTINGS_CHANNELGROUPS_NONE_def
    MANUALCONTROLSETTINGS_CHANNELGROUPS_PWM_def MANUALCONTROLSETTINGS_CHANNELGROUPS_PPM_def
    MANUALCONTROLSETTINGS_CHANNELGROUPS_DSMMAINPORT_def MANUALCONTROLSETTINGS_CHANNELGROUPS_DSMFLEXIPORT_def
    MANUALCONTROLSETTINGS_CHANNELGROUPS_SBUS_def MANUALCONTROLSETTINGS_CHANNELGROUPS_GCS_def
    MANUALCONTROLSETTINGS_CHANNELGROUPS_OPLINK_def
  by auto


lemma search_finds:
  "fsm_group fsm < MANUALCONTROLSETTINGS_CHANNELGROUPS_NONE \<Longrightarrow>
   find (\<lambda>h. pios_rcvr_group_map P h \<noteq> 0)
     (map (\<lambda>j. (fsm_group fsm + j) mod MANUALCONTROLSETTINGS_CHANNELGROUPS_NONE) [1 ..< Suc k]) = Some g' \<Longrightarrow>
   nextGroupSearch P E k fsm =
     fsm\<lparr>fsm_group := g',
         fsm_prev := updateRcvrActivitySample E (pios_rcvr_group_map P g') (fsm_prev fsm)
                       RCVR_ACTIVITY_MONITOR_CHANNELS_PER_GROUP,
         fsm_sample_count := fsm_sample_count fsm + 1\<rparr>"
proof (induction k arbitrary: fsm)
  case 0
  then show ?case by simp
next
  case (Suc k)
  let ?N = MANUALCONTROLSETTINGS_CHANNELGROUPS_NONE
  let ?h = "fsm_group fsm"
  define g1 where "g1 = (?h + 1) mod ?N"
  have N0: "0 < ?N" by (simp add: MANUALCONTROLSETTINGS_CHANNELGROUPS_NONE_def)
  have g1_alt: "(if ?h + 1 \<ge> ?N then 0 else ?h + 1) = g1"
    using Suc.prems(1) by (cases "?h + 1 = ?N") (auto simp: g1_def)
  have g1_lt: "g1 < ?N" using N0 by (simp add: g1_def)
  have "[1 ..< Suc (Suc k)] = 1 # [Suc 1 ..< Suc (Suc k)]"
    by (rule upt_conv_Cons) simp
  also have "[Suc 1 ..< Suc (Suc k)] = map Suc [1 ..< Suc k]"
    by (simp only: map_Suc_upt)
  finally have split: "[1 ..< Suc (Suc k)] = 1 # map Suc [1 ..< Suc k]" .
  have shift: "map (\<lambda>j. (?h + j) mod ?N) (map Suc [1 ..< Suc k])
      = map (\<lambda>j. (g1 + j) mod ?N) [1 ..< Suc k]"
    by (simp add: g1_def mod_add_left_eq del: upt_Suc)
  have fnd: "find (\<lambda>h. pios_rcvr_group_map P h \<noteq> 0)
       (g1 # map (\<lambda>j. (g1 + j) mod ?N) [1 ..< Suc k]) = Some g'"
    using Suc.prems(2) unfolding split list.map shift g1_def by simp
  define fsm2 where "fsm2 = fsm\<lparr>fsm_group := g1\<rparr>"
  have unf: "nextGroupSearch P E (Suc k) fsm =
      (if pios_rcvr_group_map P g1 \<noteq> 0
       then fsm2\<lparr>fsm_prev := updateRcvrActivitySample E (pios_rcvr_group_map P g1)
                                  (fsm_prev fsm2) RCVR_ACTIVITY_MONITOR_CHANNELS_PER_GROUP,
                   fsm_sample_count := fsm_sample_count fsm2 + 1\<rparr>
       else nextGroupSearch P E k fsm2)"
    using g1_alt by (auto simp: fsm2_def Let_def)
  show ?case
  proof (cases "pios_rcvr_group_map P g1 \<noteq> 0")
    case True
    with fnd have "g' = g1" by simp
    with True show ?thesis unfolding unf by (simp add: fsm2_def)
  next
    case False
    with fnd have f2: "find (\<lambda>h. pios_rcvr_group_map P h \<noteq> 0)
       (map (\<lambda>j. (fsm_group fsm2 + j) mod ?N) [1 ..< Suc k]) = Some g'"
      by (simp add: fsm2_def)
    have "fsm_group fsm2 < ?N" using g1_lt by (simp add: fsm2_def)
    from Suc.IH [OF this f2] False show ?thesis unfolding unf by (simp add: fsm2_def)
  qed
qed

lemma find_Some_member: "find Q xs = Some x \<Longrightarrow> Q x \<and> x \<in> set xs"
  by (induction xs) (auto split: if_splits)

lemma next_bound_exists:
  assumes "g < MANUALCONTROLSETTINGS_CHANNELGROUPS_NONE" "pios_rcvr_group_map P g \<noteq> 0"
  shows "\<exists>g'. next_bound_group P g = Some g' \<and> g' < MANUALCONTROLSETTINGS_CHANNELGROUPS_NONE
           \<and> pios_rcvr_group_map P g' \<noteq> 0"
proof -
  let ?N = MANUALCONTROLSETTINGS_CHANNELGROUPS_NONE
  let ?xs = "map (\<lambda>k. (g + k) mod ?N) [1 ..< Suc ?N]"
  have N0: "0 < ?N" by (simp add: MANUALCONTROLSETTINGS_CHANNELGROUPS_NONE_def)
  have "(g + ?N) mod ?N = g" using assms(1) by simp
  moreover have "?N \<in> set [1 ..< Suc ?N]" using N0 by simp
  ultimately have "g \<in> set ?xs" by (metis (no_types, lifting) image_eqI list.set_map)
  with assms(2) have "find (\<lambda>h. pios_rcvr_group_map P h \<noteq> 0) ?xs \<noteq> None"
    by (auto simp: find_None_iff)
  then obtain g' where f: "find (\<lambda>h. pios_rcvr_group_map P h \<noteq> 0) ?xs = Some g'" by auto
  then have b: "pios_rcvr_group_map P g' \<noteq> 0" and m: "g' \<in> set ?xs"
    using find_Some_member [OF f] by simp_all
  from m obtain k where "g' = (g + k) mod ?N"
    by (auto simp del: upt_Suc)
  then have "g' < ?N" using N0 by simp
  with b f show ?thesis by (simp add: next_bound_group_def del: upt_Suc)
qed

text \<open>
  Claim C9. On a bound group of the receiver-activity monitor: when no baseline has been
  taken, one step of \<open>updateRcvrActivity\<close> returns, samples the twelve channels of the
  current group into the baseline, sets the count to 1, keeps the group and reports no
  activity; on a comparison step it returns, reports activity exactly when some
  channel's absolute difference from its baseline exceeds 10, moves to the next bound
  group (wrapping past the last group) and leaves that group's fresh samples as the
  baseline with the count at 1.
\<close>

theorem rcvr_activity_fsm_steps:
  assumes bound: "fsm_group (activity_fsm s) < MANUALCONTROLSETTINGS_CHANNELGROUPS_NONE"
      "pios_rcvr_group_map P (fsm_group (activity_fsm s)) \<noteq> 0"
  shows "(fsm_sample_count (activity_fsm s) = 0 \<longrightarrow>
           (\<exists>s'. updateRcvrActivity P E s = Inr (False, s')
              \<and> fsm_group (activity_fsm s') = fsm_group (activity_fsm s)
              \<and> fsm_sample_count (activity_fsm s') = 1
              \<and> (\<forall>k < RCVR_ACTIVITY_MONITOR_CHANNELS_PER_GROUP.
                    fsm_prev (activity_fsm s') k
                      = PIOS_RCVR_Read E (pios_rcvr_group_map P (fsm_group (activity_fsm s))) (Suc k))))
       \<and> (fsm_sample_count (activity_fsm s) \<noteq> 0 \<longrightarrow>
           (\<exists>s' g'. updateRcvrActivity P E s
                 = Inr (activity_detected E (pios_rcvr_group_map P (fsm_group (activity_fsm s)))
                          (activity_fsm s), s')
              \<and> next_bound_group P (fsm_group (activity_fsm s)) = Some g'
              \<and> pios_rcvr_group_map P g' \<noteq> 0
              \<and> fsm_group (activity_fsm s') = g'
              \<and> fsm_sample_count (activity_fsm s') = 1
              \<and> (\<forall>k < RCVR_ACTIVITY_MONITOR_CHANNELS_PER_GROUP.
                    fsm_prev (activity_fsm s') k = PIOS_RCVR_Read E (pios_rcvr_group_map P g') (Suc k))))"
proof (intro conjI impI)
  assume z: "fsm_sample_count (activity_fsm s) = 0"
  show "\<exists>s'. updateRcvrActivity P E s = Inr (False, s')
              \<and> fsm_group (activity_fsm s') = fsm_group (activity_fsm s)
              \<and> fsm_sample_count (activity_fsm s') = 1
              \<and> (\<forall>k < RCVR_ACTIVITY_MONITOR_CHANNELS_PER_GROUP.
                    fsm_prev (activity_fsm s') k
                      = PIOS_RCVR_Read E (pios_rcvr_group_map P (fsm_group (activity_fsm s))) (Suc k))"
    using bound z by (simp add: updateRcvrActivity_def Let_def sample_fold)
next
  assume nz: "fsm_sample_count (activity_fsm s) \<noteq> 0"
  let ?g = "fsm_group (activity_fsm s)"
  let ?rid = "pios_rcvr_group_map P ?g"
  from activeGroupOf_Some [OF bound(1)] obtain grp where grp: "activeGroupOf ?g = Some grp" ..
  from compare_result [OF grp, of E ?rid] obtain ra where
    cmp: "updateRcvrActivityCompare E ?rid s
       = Inr (activity_detected E ?rid (activity_fsm s), s\<lparr>obj_ReceiverActivity := ra\<rparr>)" ..
  from next_bound_exists [OF bound] obtain g' where
    nb: "next_bound_group P ?g = Some g'" and g'b: "pios_rcvr_group_map P g' \<noteq> 0" by blast
  define fsm0 where "fsm0 = (activity_fsm s)\<lparr>fsm_sample_count := 0\<rparr>"
  have "fsm_group fsm0 < MANUALCONTROLSETTINGS_CHANNELGROUPS_NONE" using bound(1) by (simp add: fsm0_def)
  moreover have "find (\<lambda>h. pios_rcvr_group_map P h \<noteq> 0)
     (map (\<lambda>j. (fsm_group fsm0 + j) mod MANUALCONTROLSETTINGS_CHANNELGROUPS_NONE)
        [1 ..< Suc MANUALCONTROLSETTINGS_CHANNELGROUPS_NONE]) = Some g'"
    using nb by (simp add: next_bound_group_def fsm0_def)
  ultimately have srch: "nextGroupSearch P E MANUALCONTROLSETTINGS_CHANNELGROUPS_NONE fsm0 =
     fsm0\<lparr>fsm_group := g',
         fsm_prev := updateRcvrActivitySample E (pios_rcvr_group_map P g') (fsm_prev fsm0)
                       RCVR_ACTIVITY_MONITOR_CHANNELS_PER_GROUP,
         fsm_sample_count := fsm_sample_count fsm0 + 1\<rparr>"
    by (rule search_finds)
  have upd: "updateRcvrActivity P E s
      = Inr (activity_detected E ?rid (activity_fsm s),
             group_completed P E (s\<lparr>obj_ReceiverActivity := ra\<rparr>))"
    using bound nz cmp by (simp add: updateRcvrActivity_def Let_def)
  have "activity_fsm (group_completed P E (s\<lparr>obj_ReceiverActivity := ra\<rparr>))
      = nextGroupSearch P E MANUALCONTROLSETTINGS_CHANNELGROUPS_NONE fsm0"
    by (simp add: group_completed_def fsm0_def)
  then have gc: "activity_fsm (group_completed P E (s\<lparr>obj_ReceiverActivity := ra\<rparr>)) =
     fsm0\<lparr>fsm_group := g',
         fsm_prev := updateRcvrActivitySample E (pios_rcvr_group_map P g') (fsm_prev fsm0)
                       RCVR_ACTIVITY_MONITOR_CHANNELS_PER_GROUP,
         fsm_sample_count := fsm_sample_count fsm0 + 1\<rparr>"
    by (simp only: srch)
  show "\<exists>s' g'. updateRcvrActivity P E s = Inr (activity_detected E ?rid (activity_fsm s), s')
              \<and> next_bound_group P ?g = Some g'
              \<and> pios_rcvr_group_map P g' \<noteq> 0
              \<and> fsm_group (activity_fsm s') = g'
              \<and> fsm_sample_count (activity_fsm s') = 1
              \<and> (\<forall>k < RCVR_ACTIVITY_MONITOR_CHANNELS_PER_GROUP.
                    fsm_prev (activity_fsm s') k = PIOS_RCVR_Read E (pios_rcvr_group_map P g') (Suc k))"
    using upd nb g'b
    by (intro exI [of _ "group_completed P E (s\<lparr>obj_ReceiverActivity := ra\<rparr>)"] exI [of _ g'])
       (simp add: gc fsm0_def sample_fold)
qed


theorem rcvr_activity_fsm_steps_witness:
  "fsm_group (activity_fsm ex_state) < MANUALCONTROLSETTINGS_CHANNELGROUPS_NONE
   \<and> pios_rcvr_group_map ex_platform (fsm_group (activity_fsm ex_state)) \<noteq> 0
   \<and> fsm_sample_count (activity_fsm ex_state) = 0
   \<and> (\<exists>s'. updateRcvrActivity ex_platform ex_environment ex_state = Inr (False, s')
          \<and> fsm_group (activity_fsm s') = MANUALCONTROLSETTINGS_CHANNELGROUPS_PPM
          \<and> fsm_sample_count (activity_fsm s') = 1
          \<and> fsm_prev (activity_fsm s') 0 = 1500)
   \<and> fsm_sample_count (activity_fsm
         (ex_state\<lparr>activity_fsm := (activity_fsm ex_state)
            \<lparr>fsm_prev := (fsm_prev (activity_fsm ex_state))(0 := 1400), fsm_sample_count := 1\<rparr>\<rparr>)) \<noteq> 0
   \<and> (\<exists>s'. updateRcvrActivity ex_platform ex_environment
           (ex_state\<lparr>activity_fsm := (activity_fsm ex_state)
              \<lparr>fsm_prev := (fsm_prev (activity_fsm ex_state))(0 := 1400), fsm_sample_count := 1\<rparr>\<rparr>)
         = Inr (True, s')
          \<and> fsm_group (activity_fsm s') = MANUALCONTROLSETTINGS_CHANNELGROUPS_PPM
          \<and> fsm_sample_count (activity_fsm s') = 1)"
proof -
  define s1 where "s1 = ex_state\<lparr>activity_fsm := (activity_fsm ex_state)
      \<lparr>fsm_prev := (fsm_prev (activity_fsm ex_state))(0 := 1400), fsm_sample_count := 1\<rparr>\<rparr>"
  have g: "fsm_group (activity_fsm ex_state) = MANUALCONTROLSETTINGS_CHANNELGROUPS_PPM"
    "fsm_group (activity_fsm s1) = MANUALCONTROLSETTINGS_CHANNELGROUPS_PPM"
    by (simp_all add: ex_state_def s1_def)
  have b: "fsm_group (activity_fsm ex_state) < MANUALCONTROLSETTINGS_CHANNELGROUPS_NONE"
    "fsm_group (activity_fsm s1) < MANUALCONTROLSETTINGS_CHANNELGROUPS_NONE"
    unfolding g
    by (simp_all add: MANUALCONTROLSETTINGS_CHANNELGROUPS_PPM_def MANUALCONTROLSETTINGS_CHANNELGROUPS_NONE_def)
  have m: "pios_rcvr_group_map ex_platform (fsm_group (activity_fsm ex_state)) \<noteq> 0"
    "pios_rcvr_group_map ex_platform (fsm_group (activity_fsm s1)) \<noteq> 0"
    unfolding g by (simp_all add: ex_platform_def)
  have only: "pios_rcvr_group_map ex_platform h \<noteq> 0 \<Longrightarrow> h = MANUALCONTROLSETTINGS_CHANNELGROUPS_PPM" for h
    by (simp add: ex_platform_def split: if_splits)
  have z: "fsm_sample_count (activity_fsm ex_state) = 0"
    by (simp add: ex_state_def)
  have nz: "fsm_sample_count (activity_fsm s1) \<noteq> 0"
    by (simp add: s1_def)
  have rd: "PIOS_RCVR_Read ex_environment r k = 1500" for r k
    by (simp add: ex_environment_def)
  have "(1::nat) \<in> set [1 ..< Suc RCVR_ACTIVITY_MONITOR_CHANNELS_PER_GROUP]"
    by (simp add: RCVR_ACTIVITY_MONITOR_CHANNELS_PER_GROUP_def)
  moreover have "channel_active ex_environment r (activity_fsm s1) 1" for r
    by (simp add: channel_active_def rd s1_def)
  ultimately have act: "activity_detected ex_environment r (activity_fsm s1)" for r
    unfolding activity_detected_def list_ex_iff by blast
  have k0: "(0::nat) < RCVR_ACTIVITY_MONITOR_CHANNELS_PER_GROUP"
    by (simp add: RCVR_ACTIVITY_MONITOR_CHANNELS_PER_GROUP_def)
  from rcvr_activity_fsm_steps [OF b(1) m(1), of ex_environment] z k0
  have first: "\<exists>s'. updateRcvrActivity ex_platform ex_environment ex_state = Inr (False, s')
          \<and> fsm_group (activity_fsm s') = MANUALCONTROLSETTINGS_CHANNELGROUPS_PPM
          \<and> fsm_sample_count (activity_fsm s') = 1
          \<and> fsm_prev (activity_fsm s') 0 = 1500"
    unfolding g(1) rd by blast
  from rcvr_activity_fsm_steps [OF b(2) m(2), of ex_environment] nz act only
  have second: "\<exists>s'. updateRcvrActivity ex_platform ex_environment s1 = Inr (True, s')
          \<and> fsm_group (activity_fsm s') = MANUALCONTROLSETTINGS_CHANNELGROUPS_PPM
          \<and> fsm_sample_count (activity_fsm s') = 1"
    by (metis (full_types))
  show ?thesis
    using b(1) m(1) z first nz second unfolding s1_def by blast
qed


section \<open>Connection hysteresis\<close>

text \<open>
  When the loop is entered both hysteresis counters are 0, the arming state machine is
  Disarmed and the connection status is the one stored in the command object.
\<close>

lemma manualControlTask_init_state:
  "connected_count (manualControlTask_init E s) = 0
   \<and> disconnected_count (manualControlTask_init E s) = 0
   \<and> armState (manualControlTask_init E s) = ARM_STATE_DISARMED
   \<and> Connected (cmd (manualControlTask_init E s)) = Connected (obj_ManualControlCommand s)"
  by (simp add: manualControlTask_init_def resetRcvrActivity_def Let_def)













section \<open>The task cycle: properties\<close>

lemma updateRcvrActivity_shape:
  "\<exists>u fsm ra. updateRcvrActivity P E s = Inr (u, s\<lparr>activity_fsm := fsm, obj_ReceiverActivity := ra\<rparr>)"
proof -
  define s1 where "s1 = (if fsm_group (activity_fsm s) \<ge> MANUALCONTROLSETTINGS_CHANNELGROUPS_NONE
               then resetRcvrActivity s else s)"
  have sh1: "\<exists>fsm ra. s1 = s\<lparr>activity_fsm := fsm, obj_ReceiverActivity := ra\<rparr>"
  proof (cases "fsm_group (activity_fsm s) \<ge> MANUALCONTROLSETTINGS_CHANNELGROUPS_NONE")
    case True
    have "s1 = s\<lparr>activity_fsm := activity_fsm s1, obj_ReceiverActivity := obj_ReceiverActivity s1\<rparr>"
      using True by (simp add: s1_def resetRcvrActivity_def Let_def)
    then show ?thesis by blast
  next
    case False
    then have "s1 = s\<lparr>activity_fsm := activity_fsm s, obj_ReceiverActivity := obj_ReceiverActivity s\<rparr>"
      by (simp add: s1_def)
    then show ?thesis by blast
  qed
  have lt: "fsm_group (activity_fsm s1) < MANUALCONTROLSETTINGS_CHANNELGROUPS_NONE"
    by (simp add: s1_def resetRcvrActivity_def Let_def MANUALCONTROLSETTINGS_CHANNELGROUPS_NONE_def)
  from activeGroupOf_Some [OF lt] obtain grp where grp: "activeGroupOf (fsm_group (activity_fsm s1)) = Some grp" ..
  from compare_result [OF grp, of E "pios_rcvr_group_map P (fsm_group (activity_fsm s1))"]
  obtain ra where cmp: "updateRcvrActivityCompare E (pios_rcvr_group_map P (fsm_group (activity_fsm s1))) s1
       = Inr (activity_detected E (pios_rcvr_group_map P (fsm_group (activity_fsm s1))) (activity_fsm s1),
              s1\<lparr>obj_ReceiverActivity := ra\<rparr>)" ..
  have "\<exists>u fsm ra. updateRcvrActivity P E s = Inr (u, s1\<lparr>activity_fsm := fsm, obj_ReceiverActivity := ra\<rparr>)"
  proof -
    have u: "updateRcvrActivity P E s =
       (if pios_rcvr_group_map P (fsm_group (activity_fsm s1)) = 0 then Inr (False, group_completed P E s1)
         else if fsm_sample_count (activity_fsm s1) = 0
         then Inr (False,
                   s1\<lparr>activity_fsm :=
                       (activity_fsm s1)\<lparr>fsm_prev := updateRcvrActivitySample E (pios_rcvr_group_map P (fsm_group (activity_fsm s1))) (fsm_prev (activity_fsm s1))
                                           RCVR_ACTIVITY_MONITOR_CHANNELS_PER_GROUP,
                           fsm_sample_count := fsm_sample_count (activity_fsm s1) + 1\<rparr>\<rparr>)
         else Inr (activity_detected E (pios_rcvr_group_map P (fsm_group (activity_fsm s1))) (activity_fsm s1),
                   group_completed P E (s1\<lparr>obj_ReceiverActivity := ra\<rparr>)))"
      unfolding updateRcvrActivity_def s1_def [symmetric] Let_def cmp by simp
    consider (a) "pios_rcvr_group_map P (fsm_group (activity_fsm s1)) = 0"
      | (b) "pios_rcvr_group_map P (fsm_group (activity_fsm s1)) \<noteq> 0" "fsm_sample_count (activity_fsm s1) = 0"
      | (c) "pios_rcvr_group_map P (fsm_group (activity_fsm s1)) \<noteq> 0" "fsm_sample_count (activity_fsm s1) \<noteq> 0"
      by blast
    then show ?thesis
    proof cases
      case a
      have "updateRcvrActivity P E s = Inr (False, s1\<lparr>activity_fsm :=
            nextGroupSearch P E MANUALCONTROLSETTINGS_CHANNELGROUPS_NONE
              ((activity_fsm s1)\<lparr>fsm_sample_count := 0\<rparr>),
          obj_ReceiverActivity := obj_ReceiverActivity s1\<rparr>)"
        using a by (simp add: u group_completed_def)
      then show ?thesis by blast
    next
      case b
      then have "updateRcvrActivity P E s = Inr (False, s1\<lparr>activity_fsm :=
                       (activity_fsm s1)\<lparr>fsm_prev := updateRcvrActivitySample E (pios_rcvr_group_map P (fsm_group (activity_fsm s1))) (fsm_prev (activity_fsm s1))
                                           RCVR_ACTIVITY_MONITOR_CHANNELS_PER_GROUP,
                           fsm_sample_count := fsm_sample_count (activity_fsm s1) + 1\<rparr>, obj_ReceiverActivity := obj_ReceiverActivity s1\<rparr>)"
        by (simp add: u)
      then show ?thesis by blast
    next
      case c
      have "updateRcvrActivity P E s = Inr (activity_detected E (pios_rcvr_group_map P (fsm_group (activity_fsm s1))) (activity_fsm s1),
          s1\<lparr>activity_fsm := nextGroupSearch P E MANUALCONTROLSETTINGS_CHANNELGROUPS_NONE
              ((activity_fsm s1)\<lparr>fsm_sample_count := 0\<rparr>),
              obj_ReceiverActivity := ra\<rparr>)"
        using c by (simp add: u group_completed_def)
      then show ?thesis by blast
    qed
  qed
  then obtain u fsm ra' where "updateRcvrActivity P E s = Inr (u, s1\<lparr>activity_fsm := fsm, obj_ReceiverActivity := ra'\<rparr>)"
    by blast
  moreover from sh1 obtain fsm0 ra0 where "s1 = s\<lparr>activity_fsm := fsm0, obj_ReceiverActivity := ra0\<rparr>" by blast
  ultimately have "updateRcvrActivity P E s = Inr (u, s\<lparr>activity_fsm := fsm, obj_ReceiverActivity := ra'\<rparr>)"
    by simp
  then show ?thesis by blast
qed


lemma activityMonitor_shape:
  "\<exists>fsm ra t. activityMonitor P E s
      = Inr (s\<lparr>activity_fsm := fsm, obj_ReceiverActivity := ra, lastActivityTime := t\<rparr>)"
proof -
  define r where "r = (if Armed (flightStatus s) = FLIGHTSTATUS_ARMED_DISARMED
               then (case updateRcvrActivity P E s of
                       Inl f \<Rightarrow> Inl f
                     | Inr (activity_updated, s1) \<Rightarrow>
                         Inr (if activity_updated then s1\<lparr>lastActivityTime := lastSysTime s1\<rparr>
                              else s1))
               else Inr s)"
  from updateRcvrActivity_shape [of P E s] obtain u fsm ra where
    up: "updateRcvrActivity P E s = Inr (u, s\<lparr>activity_fsm := fsm, obj_ReceiverActivity := ra\<rparr>)"
    by blast
  have "\<exists>fsm ra t. r = Inr (s\<lparr>activity_fsm := fsm, obj_ReceiverActivity := ra, lastActivityTime := t\<rparr>)"
  proof (cases "Armed (flightStatus s) = FLIGHTSTATUS_ARMED_DISARMED")
    case True
    show ?thesis
    proof (cases u)
      case True
      with \<open>Armed (flightStatus s) = FLIGHTSTATUS_ARMED_DISARMED\<close>
      have "r = Inr (s\<lparr>activity_fsm := fsm, obj_ReceiverActivity := ra, lastActivityTime := lastSysTime s\<rparr>)"
        by (simp add: r_def up)
      then show ?thesis by blast
    next
      case False
      with \<open>Armed (flightStatus s) = FLIGHTSTATUS_ARMED_DISARMED\<close>
      have "r = Inr (s\<lparr>activity_fsm := fsm, obj_ReceiverActivity := ra, lastActivityTime := lastActivityTime s\<rparr>)"
        by (simp add: r_def up)
      then show ?thesis by blast
    qed
  next
    case False
    then have "r = Inr (s\<lparr>activity_fsm := activity_fsm s, obj_ReceiverActivity := obj_ReceiverActivity s,
        lastActivityTime := lastActivityTime s\<rparr>)"
      by (simp add: r_def)
    then show ?thesis by blast
  qed
  then obtain fsm' ra' t' where
    r: "r = Inr (s\<lparr>activity_fsm := fsm', obj_ReceiverActivity := ra', lastActivityTime := t'\<rparr>)"
    by blast
  define s2 where "s2 = s\<lparr>activity_fsm := fsm', obj_ReceiverActivity := ra', lastActivityTime := t'\<rparr>"
  have am: "activityMonitor P E s =
      Inr (if unat (timeDifferenceMs P (lastActivityTime s2) (lastSysTime s2)) > 5000
           then (resetRcvrActivity s2)\<lparr>lastActivityTime := lastSysTime s2\<rparr>
           else s2)"
    unfolding activityMonitor_def r_def [symmetric] Let_def r s2_def by simp
  show ?thesis
  proof (cases "unat (timeDifferenceMs P (lastActivityTime s2) (lastSysTime s2)) > 5000")
    case True
    have "(resetRcvrActivity s2)\<lparr>lastActivityTime := lastSysTime s2\<rparr>
       = s\<lparr>activity_fsm := activity_fsm (resetRcvrActivity s2),
           obj_ReceiverActivity := obj_ReceiverActivity (resetRcvrActivity s2),
           lastActivityTime := lastSysTime s2\<rparr>"
      by (simp add: resetRcvrActivity_def Let_def s2_def)
    with True am have "activityMonitor P E s
       = Inr (s\<lparr>activity_fsm := activity_fsm (resetRcvrActivity s2),
           obj_ReceiverActivity := obj_ReceiverActivity (resetRcvrActivity s2),
           lastActivityTime := lastSysTime s2\<rparr>)"
      by simp
    then show ?thesis by blast
  next
    case False
    with am have "activityMonitor P E s = Inr s2" by simp
    then show ?thesis unfolding s2_def by blast
  qed
qed

lemma cycleHead_shape:
  "\<exists>fsm ra t. cycleHead P E s
      = Inr (s\<lparr>lastSysTime := lastSysTime s + UPDATE_PERIOD_MS div portTICK_RATE_MS P,
               activity_fsm := fsm, obj_ReceiverActivity := ra, lastActivityTime := t,
               obj_ManualControlCommand_ReadOnly :=
                 (obj_ManualControlCommand_ReadOnly s \<and> FlightTelemetryStats_connected E)\<rparr>)"
proof -
  define sA where "sA = s\<lparr>lastSysTime := lastSysTime s + UPDATE_PERIOD_MS div portTICK_RATE_MS P\<rparr>"
  from activityMonitor_shape [of P E sA] obtain fsm ra t where
    am: "activityMonitor P E sA
      = Inr (sA\<lparr>activity_fsm := fsm, obj_ReceiverActivity := ra, lastActivityTime := t\<rparr>)"
    by blast
  have "cycleHead P E s
      = Inr (s\<lparr>lastSysTime := lastSysTime s + UPDATE_PERIOD_MS div portTICK_RATE_MS P,
               activity_fsm := fsm, obj_ReceiverActivity := ra, lastActivityTime := t,
               obj_ManualControlCommand_ReadOnly :=
                 (obj_ManualControlCommand_ReadOnly s \<and> FlightTelemetryStats_connected E)\<rparr>)"
    unfolding cycleHead_def sA_def [symmetric] Let_def am
    by (auto simp: sA_def)
  then show ?thesis by blast
qed

lemma readChannel_step:
  "readChannel P E st n (v, s) =
     (v \<and> channelValue P E st n \<noteq> PIOS_RCVR_TIMEOUT P,
      s\<lparr>cmd := (cmd s)\<lparr>Channel := (Channel (cmd s))(n := channelValue P E st n)\<rparr>,
        scaledChannel :=
          (if channelValue P E st n = PIOS_RCVR_TIMEOUT P then scaledChannel s
           else (scaledChannel s)
                  (n := scaleChannel (channelValue P E st n) (ChannelMax st n) (ChannelMin st n)
                          (ChannelNeutral st n)))\<rparr>)"
  by (simp add: readChannel_def Let_def)

lemma readChannel_fold_shape:
  "\<exists>sc. fold (readChannel P E st) ns (v, s) =
     (v \<and> \<not> list_ex (\<lambda>n. channelValue P E st n = PIOS_RCVR_TIMEOUT P) ns,
      s\<lparr>cmd := (cmd s)\<lparr>Channel := (\<lambda>n. if n \<in> set ns then channelValue P E st n
                                            else Channel (cmd s) n)\<rparr>,
        scaledChannel := sc\<rparr>)"
proof (induction ns arbitrary: v s rule: rev_induct)
  case Nil
  show ?case by (intro exI [of _ "scaledChannel s"]) simp
next
  case (snoc n ns)
  from snoc [of v s] obtain sc where
    ih: "fold (readChannel P E st) ns (v, s) =
     (v \<and> \<not> list_ex (\<lambda>n. channelValue P E st n = PIOS_RCVR_TIMEOUT P) ns,
      s\<lparr>cmd := (cmd s)\<lparr>Channel := (\<lambda>n. if n \<in> set ns then channelValue P E st n
                                            else Channel (cmd s) n)\<rparr>,
        scaledChannel := sc\<rparr>)" by blast
  have ch: "(\<lambda>m. if m \<in> set ns then channelValue P E st m else Channel (cmd s) m)(n := channelValue P E st n)
     = (\<lambda>m. if m \<in> set (ns @ [n]) then channelValue P E st m else Channel (cmd s) m)"
    by (auto simp: fun_eq_iff)
  have "fold (readChannel P E st) (ns @ [n]) (v, s) =
      (v \<and> \<not> list_ex (\<lambda>n. channelValue P E st n = PIOS_RCVR_TIMEOUT P) (ns @ [n]),
      s\<lparr>cmd := (cmd s)\<lparr>Channel := (\<lambda>m. if m \<in> set (ns @ [n]) then channelValue P E st m
                                            else Channel (cmd s) m)\<rparr>,
        scaledChannel := (if channelValue P E st n = PIOS_RCVR_TIMEOUT P then sc
           else sc(n := scaleChannel (channelValue P E st n) (ChannelMax st n) (ChannelMin st n)
                          (ChannelNeutral st n)))\<rparr>)"
    unfolding fold_append comp_apply ih fold_simps readChannel_step ch [symmetric]
    by auto
  then show ?case by blast
qed

lemma channel_elems_univ: "n \<in> set MANUALCONTROLSETTINGS_CHANNELGROUPS_ELEMS"
  by (cases n) (simp_all add: MANUALCONTROLSETTINGS_CHANNELGROUPS_ELEMS_def)

lemma readChannels_shape:
  "\<exists>sc. readChannels P E st s =
     (\<not> list_ex (\<lambda>n. channelValue P E st n = PIOS_RCVR_TIMEOUT P) MANUALCONTROLSETTINGS_CHANNELGROUPS_ELEMS,
      s\<lparr>cmd := (cmd s)\<lparr>Channel := channelValue P E st\<rparr>, scaledChannel := sc\<rparr>)"
proof -
  have "(\<lambda>n. if n \<in> set MANUALCONTROLSETTINGS_CHANNELGROUPS_ELEMS then channelValue P E st n
              else Channel (cmd s) n) = channelValue P E st"
    by (simp add: channel_elems_univ)
  with readChannel_fold_shape [of P E st MANUALCONTROLSETTINGS_CHANNELGROUPS_ELEMS True s]
  show ?thesis by (simp add: readChannels_def)
qed

lemma settingsInvalid_iff:
  "Channel c = channelValue P E st \<Longrightarrow> settingsInvalid P st c = configInconsistent P E st"
  unfolding settingsInvalid_def configInconsistent_def channelUnusable_def REQUIRED_CHANNELS_def
  by (simp add: list_ex_iff) blast


lemma settings_error_cycle:
  assumes w: "\<not> (obj_ManualControlCommand_ReadOnly s \<and> FlightTelemetryStats_connected E)"
    and bad: "configInconsistent P E (ManualControlSettingsGet E)"
  shows "\<exists>fsm ra t sc. manualControlCycle P E s =
     Inr (settingsInvalidBranch
           (s\<lparr>lastSysTime := lastSysTime s + UPDATE_PERIOD_MS div portTICK_RATE_MS P,
              activity_fsm := fsm, obj_ReceiverActivity := ra, lastActivityTime := t,
              obj_ManualControlCommand_ReadOnly := False,
              cmd := (cmd s)\<lparr>Channel := channelValue P E (ManualControlSettingsGet E)\<rparr>,
              scaledChannel := sc\<rparr>))"
proof -
  let ?st = "ManualControlSettingsGet E"
  from cycleHead_shape [of P E s] obtain fsm ra t where
    head: "cycleHead P E s
      = Inr (s\<lparr>lastSysTime := lastSysTime s + UPDATE_PERIOD_MS div portTICK_RATE_MS P,
               activity_fsm := fsm, obj_ReceiverActivity := ra, lastActivityTime := t,
               obj_ManualControlCommand_ReadOnly :=
                 (obj_ManualControlCommand_ReadOnly s \<and> FlightTelemetryStats_connected E)\<rparr>)"
    by blast
  define sC where "sC = s\<lparr>lastSysTime := lastSysTime s + UPDATE_PERIOD_MS div portTICK_RATE_MS P,
               activity_fsm := fsm, obj_ReceiverActivity := ra, lastActivityTime := t,
               obj_ManualControlCommand_ReadOnly :=
                 (obj_ManualControlCommand_ReadOnly s \<and> FlightTelemetryStats_connected E)\<rparr>"
  from readChannels_shape [of P E ?st sC] obtain sc where
    rd: "readChannels P E ?st sC =
     (\<not> list_ex (\<lambda>n. channelValue P E ?st n = PIOS_RCVR_TIMEOUT P) MANUALCONTROLSETTINGS_CHANNELGROUPS_ELEMS,
      sC\<lparr>cmd := (cmd sC)\<lparr>Channel := channelValue P E ?st\<rparr>, scaledChannel := sc\<rparr>)"
    by blast
  define sD where "sD = sC\<lparr>cmd := (cmd sC)\<lparr>Channel := channelValue P E ?st\<rparr>, scaledChannel := sc\<rparr>"
  have wr: "\<not> obj_ManualControlCommand_ReadOnly sC"
    using w by (simp add: sC_def)
  have inv: "settingsInvalid P ?st (cmd sD)"
    using bad settingsInvalid_iff [of "cmd sD" P E ?st] by (simp add: sD_def)
  have cyc: "manualControlCycle P E s = Inr (settingsInvalidBranch sD)"
    unfolding manualControlCycle_def Let_def head sC_def [symmetric]
    using wr inv by (simp add: rd sD_def [symmetric])
  have "sD = s\<lparr>lastSysTime := lastSysTime s + UPDATE_PERIOD_MS div portTICK_RATE_MS P,
              activity_fsm := fsm, obj_ReceiverActivity := ra, lastActivityTime := t,
              obj_ManualControlCommand_ReadOnly := False,
              cmd := (cmd s)\<lparr>Channel := channelValue P E ?st\<rparr>,
              scaledChannel := sc\<rparr>"
    using w by (simp add: sD_def sC_def)
  with cyc show ?thesis by blast
qed

text \<open>
  Claim C7. In every cycle in which the command object is writable and the consistency
  check fails (a required roll, pitch, yaw or throttle channel has group None or beyond
  or reads the invalid or no-driver code, the flight-mode count is outside 1 to the
  number of slots, or with more than one flight mode the flight-mode channel is unbound
  or reads one of the codes), the cycle returns with the manual-control alarm critical,
  the command's \<open>Connected\<close> false and the command published, and the published armed
  status Disarmed. Nothing else of the cycle runs: no dispatcher call is made, the last
  flight mode and the task's copy of the flight status are not refreshed, and the arming
  state, its timer, the hysteresis counters, the axes of the command and the accessory
  outputs are as before.
\<close>

theorem config_inconsistency_cycle:
  assumes w: "\<not> (obj_ManualControlCommand_ReadOnly s \<and> FlightTelemetryStats_connected E)"
    and bad: "configInconsistent P E (ManualControlSettingsGet E)"
  shows "\<exists>s'. manualControlCycle P E s = Inr s'
     \<and> obj_SystemAlarms s'
         = (obj_SystemAlarms s)(SYSTEMALARMS_ALARM_MANUALCONTROL := SYSTEMALARMS_ALARM_CRITICAL)
     \<and> cmd s' = (cmd s)\<lparr>Channel := channelValue P E (ManualControlSettingsGet E), Connected := False\<rparr>
     \<and> obj_ManualControlCommand s' = cmd s'
     \<and> obj_FlightStatus s' = (obj_FlightStatus s)\<lparr>Armed := FLIGHTSTATUS_ARMED_DISARMED\<rparr>
     \<and> dispatched s' = dispatched s
     \<and> lastFlightMode s' = lastFlightMode s
     \<and> flightStatus s' = flightStatus s
     \<and> armState s' = armState s
     \<and> armedDisarmStart s' = armedDisarmStart s
     \<and> connected_count s' = connected_count s
     \<and> disconnected_count s' = disconnected_count s
     \<and> obj_AccessoryDesired s' = obj_AccessoryDesired s
     \<and> flightMode s' = flightMode s"
proof -
  from settings_error_cycle [OF w bad] obtain fsm ra t sc where
    cyc: "manualControlCycle P E s =
     Inr (settingsInvalidBranch
           (s\<lparr>lastSysTime := lastSysTime s + UPDATE_PERIOD_MS div portTICK_RATE_MS P,
              activity_fsm := fsm, obj_ReceiverActivity := ra, lastActivityTime := t,
              obj_ManualControlCommand_ReadOnly := False,
              cmd := (cmd s)\<lparr>Channel := channelValue P E (ManualControlSettingsGet E)\<rparr>,
              scaledChannel := sc\<rparr>))"
    by blast
  define s' where "s' = settingsInvalidBranch
           (s\<lparr>lastSysTime := lastSysTime s + UPDATE_PERIOD_MS div portTICK_RATE_MS P,
              activity_fsm := fsm, obj_ReceiverActivity := ra, lastActivityTime := t,
              obj_ManualControlCommand_ReadOnly := False,
              cmd := (cmd s)\<lparr>Channel := channelValue P E (ManualControlSettingsGet E)\<rparr>,
              scaledChannel := sc\<rparr>)"
  have "obj_SystemAlarms s'
         = (obj_SystemAlarms s)(SYSTEMALARMS_ALARM_MANUALCONTROL := SYSTEMALARMS_ALARM_CRITICAL)"
    and "cmd s' = (cmd s)\<lparr>Channel := channelValue P E (ManualControlSettingsGet E), Connected := False\<rparr>"
    and "obj_ManualControlCommand s' = cmd s'"
    and "obj_FlightStatus s' = (obj_FlightStatus s)\<lparr>Armed := FLIGHTSTATUS_ARMED_DISARMED\<rparr>"
    and "dispatched s' = dispatched s" and "lastFlightMode s' = lastFlightMode s"
    and "flightStatus s' = flightStatus s" and "armState s' = armState s"
    and "armedDisarmStart s' = armedDisarmStart s" and "connected_count s' = connected_count s"
    and "disconnected_count s' = disconnected_count s"
    and "obj_AccessoryDesired s' = obj_AccessoryDesired s" and "flightMode s' = flightMode s"
    by (simp_all add: s'_def settingsInvalidBranch_def AlarmsSet_def setArmed_eq Let_def)
  moreover have "manualControlCycle P E s = Inr s'"
    by (simp add: cyc s'_def)
  ultimately show ?thesis by blast
qed

lemma updateConnection_Connected_cong:
  "connected_count s = connected_count t \<Longrightarrow> disconnected_count s = disconnected_count t \<Longrightarrow>
   Connected (cmd s) = Connected (cmd t) \<Longrightarrow>
   Connected (cmd (updateConnection v s)) = Connected (cmd (updateConnection v t))"
  by (simp add: updateConnection_def Let_def)

lemma updateConnection_cmd:
  "cmd (updateConnection v s) = (cmd s)\<lparr>Connected := Connected (cmd (updateConnection v s))\<rparr>"
  by (simp add: updateConnection_def Let_def)

lemma updateConnection_obj_FlightStatus:
  "obj_FlightStatus (updateConnection v s) = obj_FlightStatus s"
  by (simp add: updateConnection_def Let_def)

lemma disconnectedAccessory_frame:
  "cmd (disconnectedAccessory E st i ch s) = cmd s
   \<and> obj_FlightStatus (disconnectedAccessory E st i ch s) = obj_FlightStatus s"
  by (simp add: disconnectedAccessory_def AlarmsSet_def)

lemma processArm_gesture_frame:
  "cmd (processArm_gesture P E st a d s) = cmd s
   \<and> FlightMode (obj_FlightStatus (processArm_gesture P E st a d s)) = FlightMode (obj_FlightStatus s)"
  by (cases "armState s")
     (auto simp: processArm_gesture_def setArmed_eq okToArm_def Let_def
        split: FlightStatusFlightModeOptions.splits prod.splits)

lemma processArm_frame:
  "cmd (processArm P E c st a s) = cmd s
   \<and> FlightMode (obj_FlightStatus (processArm P E c st a s)) = FlightMode (obj_FlightStatus s)"
  using processArm_gesture_frame [of P E st]
  by (cases "armState s") (simp_all add: processArm_def setArmed_eq Let_def)

lemma dispatch_frame:
  "obj_ManualControlCommand (dispatch P s) = obj_ManualControlCommand s
   \<and> obj_FlightStatus (dispatch P s) = obj_FlightStatus s"
  by (simp add: dispatch_def call_updateStabilizationDesired_def call_guidance_def Let_def
      AlarmsSet_def split: FlightModeCategory.splits FlightStatusFlightModeOptions.splits)


lemma validInput_eq:
  "Channel c = channelValue P E st \<Longrightarrow>
   validInput st c (\<not> list_ex (\<lambda>n. channelValue P E st n = PIOS_RCVR_TIMEOUT P)
                        MANUALCONTROLSETTINGS_CHANNELGROUPS_ELEMS) = inputValid P E st"
  unfolding validInput_def inputValid_def REQUIRED_CHANNELS_def
  by (simp add: list_all_iff) blast

lemma failsafe_index:
  assumes "(fb :: 8 word) \<noteq> 0" and "unat fb \<le> n"
  shows "0 \<le> uint fb - 1 \<and> nat (uint fb - 1) < n \<and> nat (uint fb - 1) = unat fb - 1"
proof -
  define k where "k = unat fb"
  have "k \<noteq> 0" using assms(1) by (simp add: k_def unat_eq_zero)
  then have k1: "1 \<le> k" by simp
  have kn: "k \<le> n" using assms(2) by (simp add: k_def)
  have u: "uint fb = int k" unfolding k_def by (rule uint_nat)
  have "0 \<le> int k - 1 \<and> nat (int k - 1) < n \<and> nat (int k - 1) = k - 1"
    using k1 kn by arith
  then show ?thesis unfolding u k_def .
qed

lemma disconnectedBranch_result:
  assumes "unat (FailsafeBehavior st) \<le> length (FlightModePosition st)"
  shows "\<exists>s2. disconnectedBranch E st s = Inr s2
     \<and> Throttle (cmd s2) = - 1 \<and> Roll (cmd s2) = 0 \<and> Pitch (cmd s2) = 0 \<and> Yaw (cmd s2) = 0
     \<and> Collective (cmd s2) = 0 \<and> Connected (cmd s2) = Connected (cmd s)
     \<and> (FailsafeBehavior st \<noteq> MANUALCONTROLSETTINGS_FAILSAFEBEHAVIOR_NONE \<longrightarrow>
          FlightMode (obj_FlightStatus s2) = FlightModePosition st ! (unat (FailsafeBehavior st) - 1)
          \<and> FlightModeSwitchPosition (cmd s2) = FailsafeBehavior st - 1)"
proof (cases "FailsafeBehavior st = MANUALCONTROLSETTINGS_FAILSAFEBEHAVIOR_NONE")
  case True
  then show ?thesis
    by (simp add: disconnectedBranch_def Let_def disconnectedAccessory_frame AlarmsSet_def)
next
  case False
  then have "FailsafeBehavior st \<noteq> 0"
    by (simp add: MANUALCONTROLSETTINGS_FAILSAFEBEHAVIOR_NONE_def)
  from failsafe_index [OF this assms] False show ?thesis
    by (simp add: disconnectedBranch_def Let_def disconnectedAccessory_frame AlarmsSet_def)
qed

text \<open>
  Claim C8, amended. In every cycle in which the command object is writable, the
  consistency check passes and the connection status after the hysteresis update is
  Disconnected, the cycle returns and the published command has roll, pitch, yaw and
  collective 0 and throttle -1; and if \<open>FailsafeBehavior\<close> is configured (and names an
  existing slot) the flight mode is \<open>FlightModePosition[FailsafeBehavior - 1]\<close> and the
  published switch position is \<open>FailsafeBehavior - 1\<close>.
\<close>

theorem disconnected_cycle:
  assumes w: "\<not> (obj_ManualControlCommand_ReadOnly s \<and> FlightTelemetryStats_connected E)"
    and ok: "\<not> configInconsistent P E (ManualControlSettingsGet E)"
    and disc: "\<not> Connected (cmd (updateConnection (inputValid P E (ManualControlSettingsGet E)) s))"
    and fs: "unat (FailsafeBehavior (ManualControlSettingsGet E))
               \<le> length (FlightModePosition (ManualControlSettingsGet E))"
  shows "\<exists>s'. manualControlCycle P E s = Inr s'
     \<and> Roll (obj_ManualControlCommand s') = 0
     \<and> Pitch (obj_ManualControlCommand s') = 0
     \<and> Yaw (obj_ManualControlCommand s') = 0
     \<and> Collective (obj_ManualControlCommand s') = 0
     \<and> Throttle (obj_ManualControlCommand s') = - 1
     \<and> \<not> Connected (obj_ManualControlCommand s')
     \<and> (FailsafeBehavior (ManualControlSettingsGet E) \<noteq> MANUALCONTROLSETTINGS_FAILSAFEBEHAVIOR_NONE \<longrightarrow>
          FlightMode (obj_FlightStatus s')
            = FlightModePosition (ManualControlSettingsGet E)
                ! (unat (FailsafeBehavior (ManualControlSettingsGet E)) - 1)
          \<and> FlightModeSwitchPosition (obj_ManualControlCommand s')
            = FailsafeBehavior (ManualControlSettingsGet E) - 1)"
proof -
  let ?st = "ManualControlSettingsGet E"
  let ?v0 = "\<not> list_ex (\<lambda>n. channelValue P E ?st n = PIOS_RCVR_TIMEOUT P)
                MANUALCONTROLSETTINGS_CHANNELGROUPS_ELEMS"
  from cycleHead_shape [of P E s] obtain fsm ra t where
    head: "cycleHead P E s
      = Inr (s\<lparr>lastSysTime := lastSysTime s + UPDATE_PERIOD_MS div portTICK_RATE_MS P,
               activity_fsm := fsm, obj_ReceiverActivity := ra, lastActivityTime := t,
               obj_ManualControlCommand_ReadOnly :=
                 (obj_ManualControlCommand_ReadOnly s \<and> FlightTelemetryStats_connected E)\<rparr>)"
    by blast
  define sC where "sC = s\<lparr>lastSysTime := lastSysTime s + UPDATE_PERIOD_MS div portTICK_RATE_MS P,
               activity_fsm := fsm, obj_ReceiverActivity := ra, lastActivityTime := t,
               obj_ManualControlCommand_ReadOnly :=
                 (obj_ManualControlCommand_ReadOnly s \<and> FlightTelemetryStats_connected E)\<rparr>"
  from readChannels_shape [of P E ?st sC] obtain sc where
    rd: "readChannels P E ?st sC =
     (?v0, sC\<lparr>cmd := (cmd sC)\<lparr>Channel := channelValue P E ?st\<rparr>, scaledChannel := sc\<rparr>)"
    by blast
  define sD where "sD = sC\<lparr>cmd := (cmd sC)\<lparr>Channel := channelValue P E ?st\<rparr>, scaledChannel := sc\<rparr>"
  have wr: "\<not> obj_ManualControlCommand_ReadOnly sC"
    using w by (simp add: sC_def)
  have chD: "Channel (cmd sD) = channelValue P E ?st"
    by (simp add: sD_def)
  have ninv: "\<not> settingsInvalid P ?st (cmd sD)"
    using ok settingsInvalid_iff [OF chD] by simp
  have cyc: "manualControlCycle P E s =
      (case processInput P E ?st ?v0 sD of Inl f \<Rightarrow> Inl f | Inr sE \<Rightarrow> Inr (dispatch P sE))"
    unfolding manualControlCycle_def Let_def head sC_def [symmetric]
    using wr ninv by (simp add: rd sD_def [symmetric])
  define s1 where "s1 = updateConnection (inputValid P E ?st) sD"
  have "Connected (cmd s1) = Connected (cmd (updateConnection (inputValid P E ?st) s))"
    unfolding s1_def by (rule updateConnection_Connected_cong) (simp_all add: sD_def sC_def)
  with disc have d1: "\<not> Connected (cmd s1)" by simp
  from disconnectedBranch_result [OF fs, of E s1] obtain s2 where
    db: "disconnectedBranch E ?st s1 = Inr s2"
    and c2: "Throttle (cmd s2) = - 1" "Roll (cmd s2) = 0" "Pitch (cmd s2) = 0" "Yaw (cmd s2) = 0"
      "Collective (cmd s2) = 0" "Connected (cmd s2) = Connected (cmd s1)"
    and f2: "FailsafeBehavior ?st \<noteq> MANUALCONTROLSETTINGS_FAILSAFEBEHAVIOR_NONE \<longrightarrow>
          FlightMode (obj_FlightStatus s2) = FlightModePosition ?st ! (unat (FailsafeBehavior ?st) - 1)
          \<and> FlightModeSwitchPosition (cmd s2) = FailsafeBehavior ?st - 1"
    by blast
  define s4 where "s4 = processArm P E (cmd s2) ?st 0 s2"
  have pi: "processInput P E ?st ?v0 sD = Inr (s4\<lparr>obj_ManualControlCommand := cmd s4\<rparr>)"
    unfolding processInput_def Let_def validInput_eq [OF chD] s1_def [symmetric]
    using d1 by (simp add: db s4_def)
  have c4: "cmd s4 = cmd s2"
    and f4: "FlightMode (obj_FlightStatus s4) = FlightMode (obj_FlightStatus s2)"
    using processArm_frame [of P E "cmd s2" ?st 0 s2] by (simp_all add: s4_def)
  define s' where "s' = dispatch P (s4\<lparr>obj_ManualControlCommand := cmd s4\<rparr>)"
  have res: "manualControlCycle P E s = Inr s'"
    by (simp add: cyc pi s'_def)
  have o: "obj_ManualControlCommand s' = cmd s2"
    and fl: "FlightMode (obj_FlightStatus s') = FlightMode (obj_FlightStatus s2)"
    using dispatch_frame [of P "s4\<lparr>obj_ManualControlCommand := cmd s4\<rparr>"] c4 f4
    by (simp_all add: s'_def)
  from res c2 d1 f2 show ?thesis
    unfolding o [symmetric] fl [symmetric] by blast
qed


theorem config_inconsistency_cycle_witness:
  "\<not> (obj_ManualControlCommand_ReadOnly ex_state
        \<and> FlightTelemetryStats_connected
             (ex_environment\<lparr>ManualControlSettingsGet := ex_settings\<lparr>FlightModeNumber := 0\<rparr>\<rparr>))
   \<and> configInconsistent ex_platform
        (ex_environment\<lparr>ManualControlSettingsGet := ex_settings\<lparr>FlightModeNumber := 0\<rparr>\<rparr>)
        (ManualControlSettingsGet
           (ex_environment\<lparr>ManualControlSettingsGet := ex_settings\<lparr>FlightModeNumber := 0\<rparr>\<rparr>))
   \<and> (\<exists>s'. manualControlCycle ex_platform
                (ex_environment\<lparr>ManualControlSettingsGet := ex_settings\<lparr>FlightModeNumber := 0\<rparr>\<rparr>)
                ex_state = Inr s'
          \<and> obj_SystemAlarms s' SYSTEMALARMS_ALARM_MANUALCONTROL = SYSTEMALARMS_ALARM_CRITICAL
          \<and> \<not> Connected (obj_ManualControlCommand s')
          \<and> Armed (obj_FlightStatus s') = FLIGHTSTATUS_ARMED_DISARMED
          \<and> dispatched s' = [])"
proof -
  define E where "E = ex_environment\<lparr>ManualControlSettingsGet := ex_settings\<lparr>FlightModeNumber := 0\<rparr>\<rparr>"
  have w: "\<not> (obj_ManualControlCommand_ReadOnly ex_state \<and> FlightTelemetryStats_connected E)"
    by (simp add: ex_state_def)
  have bad: "configInconsistent ex_platform E (ManualControlSettingsGet E)"
    by (simp add: configInconsistent_def E_def)
  have d: "dispatched ex_state = []"
    by (simp add: ex_state_def)
  from config_inconsistency_cycle [OF w bad] obtain s' where
    "manualControlCycle ex_platform E ex_state = Inr s'"
    "obj_SystemAlarms s'
         = (obj_SystemAlarms ex_state)(SYSTEMALARMS_ALARM_MANUALCONTROL := SYSTEMALARMS_ALARM_CRITICAL)"
    "cmd s' = (cmd ex_state)\<lparr>Channel := channelValue ex_platform E (ManualControlSettingsGet E), Connected := False\<rparr>"
    "obj_ManualControlCommand s' = cmd s'"
    "obj_FlightStatus s' = (obj_FlightStatus ex_state)\<lparr>Armed := FLIGHTSTATUS_ARMED_DISARMED\<rparr>"
    "dispatched s' = dispatched ex_state"
    by blast
  then have "manualControlCycle ex_platform E ex_state = Inr s'
          \<and> obj_SystemAlarms s' SYSTEMALARMS_ALARM_MANUALCONTROL = SYSTEMALARMS_ALARM_CRITICAL
          \<and> \<not> Connected (obj_ManualControlCommand s')
          \<and> Armed (obj_FlightStatus s') = FLIGHTSTATUS_ARMED_DISARMED
          \<and> dispatched s' = []"
    using d by simp
  then show ?thesis
    using w bad unfolding E_def by blast
qed

theorem disconnected_cycle_witness:
  "\<not> (obj_ManualControlCommand_ReadOnly (ex_state\<lparr>cmd := ex_cmd\<lparr>Connected := False, Roll := 1 / 2\<rparr>\<rparr>)
        \<and> FlightTelemetryStats_connected ex_environment)
   \<and> \<not> configInconsistent ex_platform ex_environment (ManualControlSettingsGet ex_environment)
   \<and> \<not> Connected (cmd (updateConnection
           (inputValid ex_platform ex_environment (ManualControlSettingsGet ex_environment))
           (ex_state\<lparr>cmd := ex_cmd\<lparr>Connected := False, Roll := 1 / 2\<rparr>\<rparr>)))
   \<and> unat (FailsafeBehavior (ManualControlSettingsGet ex_environment))
        \<le> length (FlightModePosition (ManualControlSettingsGet ex_environment))
   \<and> (\<exists>s'. manualControlCycle ex_platform ex_environment
                (ex_state\<lparr>cmd := ex_cmd\<lparr>Connected := False, Roll := 1 / 2\<rparr>\<rparr>) = Inr s'
          \<and> Roll (obj_ManualControlCommand s') = 0
          \<and> Throttle (obj_ManualControlCommand s') = - 1
          \<and> FlightMode (obj_FlightStatus s') = FLIGHTSTATUS_FLIGHTMODE_MANUAL
          \<and> FlightModeSwitchPosition (obj_ManualControlCommand s') = 0)"
proof -
  define s0 where "s0 = ex_state\<lparr>cmd := ex_cmd\<lparr>Connected := False, Roll := 1 / 2\<rparr>\<rparr>"
  have st: "ManualControlSettingsGet ex_environment = ex_settings"
    by (simp add: ex_environment_def)
  have w: "\<not> (obj_ManualControlCommand_ReadOnly s0 \<and> FlightTelemetryStats_connected ex_environment)"
    by (simp add: s0_def ex_state_def)
  have cv: "channelValue ex_platform ex_environment ex_settings n = 1500" for n
    by (simp add: channelValue_def ex_settings_def ex_environment_def
        MANUALCONTROLSETTINGS_CHANNELGROUPS_PPM_def MANUALCONTROLSETTINGS_CHANNELGROUPS_NONE_def)
  have ok: "\<not> configInconsistent ex_platform ex_environment (ManualControlSettingsGet ex_environment)"
    unfolding st configInconsistent_def channelUnusable_def REQUIRED_CHANNELS_def cv
    by (simp add: ex_settings_def ex_platform_def
        MANUALCONTROLSETTINGS_CHANNELGROUPS_PPM_def MANUALCONTROLSETTINGS_CHANNELGROUPS_NONE_def)
  have disc: "\<not> Connected (cmd (updateConnection v s0))" for v
    by (simp add: updateConnection_def Let_def s0_def ex_state_def word_less_nat_alt)
  have fs: "unat (FailsafeBehavior (ManualControlSettingsGet ex_environment))
        \<le> length (FlightModePosition (ManualControlSettingsGet ex_environment))"
    by (simp add: st ex_settings_def)
  have fb: "FailsafeBehavior (ManualControlSettingsGet ex_environment)
       \<noteq> MANUALCONTROLSETTINGS_FAILSAFEBEHAVIOR_NONE"
    "FlightModePosition (ManualControlSettingsGet ex_environment)
       ! (unat (FailsafeBehavior (ManualControlSettingsGet ex_environment)) - 1) = FLIGHTSTATUS_FLIGHTMODE_MANUAL"
    "FailsafeBehavior (ManualControlSettingsGet ex_environment) - 1 = 0"
    by (simp_all add: st ex_settings_def MANUALCONTROLSETTINGS_FAILSAFEBEHAVIOR_NONE_def)
  from disconnected_cycle [OF w ok disc fs] obtain s' where
    r: "manualControlCycle ex_platform ex_environment s0 = Inr s'"
      "Roll (obj_ManualControlCommand s') = 0"
      "Throttle (obj_ManualControlCommand s') = - 1"
    and f: "FailsafeBehavior (ManualControlSettingsGet ex_environment) \<noteq> MANUALCONTROLSETTINGS_FAILSAFEBEHAVIOR_NONE \<longrightarrow>
          FlightMode (obj_FlightStatus s')
            = FlightModePosition (ManualControlSettingsGet ex_environment)
                ! (unat (FailsafeBehavior (ManualControlSettingsGet ex_environment)) - 1)
          \<and> FlightModeSwitchPosition (obj_ManualControlCommand s')
            = FailsafeBehavior (ManualControlSettingsGet ex_environment) - 1"
    by blast
  from f fb have "FlightMode (obj_FlightStatus s') = FLIGHTSTATUS_FLIGHTMODE_MANUAL"
    "FlightModeSwitchPosition (obj_ManualControlCommand s') = 0"
    by simp_all
  with r have "\<exists>s'. manualControlCycle ex_platform ex_environment s0 = Inr s'
          \<and> Roll (obj_ManualControlCommand s') = 0
          \<and> Throttle (obj_ManualControlCommand s') = - 1
          \<and> FlightMode (obj_FlightStatus s') = FLIGHTSTATUS_FLIGHTMODE_MANUAL
          \<and> FlightModeSwitchPosition (obj_ManualControlCommand s') = 0"
    by blast
  then show ?thesis
    using w ok disc fs unfolding s0_def by blast
qed


text \<open>
  Claim C8, as stated for every cycle with status Disconnected, fails on the cycle of a
  failed consistency check: that cycle publishes the command with \<open>Connected\<close> false and
  leaves its axes as they were, here roll at 1/2.
\<close>

theorem disconnected_not_zeroed_counterexample:
  "\<not> isl (manualControlCycle ex_platform
        (ex_environment\<lparr>ManualControlSettingsGet := ex_settings\<lparr>FlightModeNumber := 0\<rparr>\<rparr>)
        (ex_state\<lparr>cmd := ex_cmd\<lparr>Roll := 1 / 2\<rparr>\<rparr>))
   \<and> \<not> Connected (obj_ManualControlCommand (projr (manualControlCycle ex_platform
        (ex_environment\<lparr>ManualControlSettingsGet := ex_settings\<lparr>FlightModeNumber := 0\<rparr>\<rparr>)
        (ex_state\<lparr>cmd := ex_cmd\<lparr>Roll := 1 / 2\<rparr>\<rparr>))))
   \<and> Roll (obj_ManualControlCommand (projr (manualControlCycle ex_platform
        (ex_environment\<lparr>ManualControlSettingsGet := ex_settings\<lparr>FlightModeNumber := 0\<rparr>\<rparr>)
        (ex_state\<lparr>cmd := ex_cmd\<lparr>Roll := 1 / 2\<rparr>\<rparr>)))) = 1 / 2"
proof -
  define E where "E = ex_environment\<lparr>ManualControlSettingsGet := ex_settings\<lparr>FlightModeNumber := 0\<rparr>\<rparr>"
  define s0 where "s0 = ex_state\<lparr>cmd := ex_cmd\<lparr>Roll := 1 / 2\<rparr>\<rparr>"
  have w: "\<not> (obj_ManualControlCommand_ReadOnly s0 \<and> FlightTelemetryStats_connected E)"
    by (simp add: s0_def ex_state_def)
  have bad: "configInconsistent ex_platform E (ManualControlSettingsGet E)"
    by (simp add: configInconsistent_def E_def)
  from settings_error_cycle [OF w bad] obtain fsm ra t sc where
    cyc: "manualControlCycle ex_platform E s0 =
     Inr (settingsInvalidBranch
           (s0\<lparr>lastSysTime := lastSysTime s0 + UPDATE_PERIOD_MS div portTICK_RATE_MS ex_platform,
              activity_fsm := fsm, obj_ReceiverActivity := ra, lastActivityTime := t,
              obj_ManualControlCommand_ReadOnly := False,
              cmd := (cmd s0)\<lparr>Channel := channelValue ex_platform E (ManualControlSettingsGet E)\<rparr>,
              scaledChannel := sc\<rparr>))"
    by blast
  have "\<not> isl (manualControlCycle ex_platform E s0)
     \<and> \<not> Connected (obj_ManualControlCommand (projr (manualControlCycle ex_platform E s0)))
     \<and> Roll (obj_ManualControlCommand (projr (manualControlCycle ex_platform E s0))) = 1 / 2"
    unfolding cyc
    by (simp add: settingsInvalidBranch_def AlarmsSet_def setArmed_eq Let_def s0_def)
  then show ?thesis unfolding E_def s0_def .
qed


end
